theory Spec2Isabelle
  imports Main "HOL-Library.Word"
begin

section \<open>JavaScript values\<close>

text \<open>
  The backend is a set of Express route handlers over a SQLite table. The handlers move
  JavaScript values around: strings, numbers, \<open>null\<close>, \<open>undefined\<close> and the objects
  that \<open>JSON.parse\<close> and the HTTP client return. A JavaScript string is a sequence of
  UTF-16 code units, so it is modelled as a list of 16-bit words; \<open>js\<close> embeds an ASCII
  literal of the source.

  Numbers are modelled as mathematical integers (\<open>VNum\<close>) plus \<open>NaN\<close> (\<open>VNaN\<close>):
  the model is exact for the integers a double represents exactly (up to \<open>2 ^ 53\<close>), which
  covers epoch seconds and token lifetimes. Fractions are outside the model; where a
  builtin would have to produce one, the model answers \<open>Unmodelled\<close> instead of guessing.
\<close>

type_synonym jsstring = "16 word list"

definition js :: "string \<Rightarrow> jsstring" where
  "js s = map (\<lambda>c. of_nat (of_char c)) s"

datatype jsval =
    Undefined
  | Null
  | VBool bool
  | VNum int
  | VNaN
  | VStr jsstring
  | VArr "jsval list"
  | VObj "(jsstring \<times> jsval) list"

text \<open>
  What a JavaScript operation can throw. \<open>Unmodelled\<close> is not a JavaScript exception:
  it marks an input on which the model declines to predict the runtime (no \<open>catch\<close>
  clause of the model handles it).
\<close>

datatype exn =
    TypeError
  | SyntaxError
  | URIError
  | HttpError
  | SqliteError string
  | Unmodelled

text \<open>ToBoolean: \<open>undefined\<close>, \<open>null\<close>, \<open>false\<close>, \<open>0\<close>, \<open>NaN\<close> and \<open>""\<close> are falsy.\<close>

fun truthy :: "jsval \<Rightarrow> bool" where
  "truthy Undefined = False"
| "truthy Null = False"
| "truthy (VBool b) = b"
| "truthy (VNum n) = (n \<noteq> 0)"
| "truthy VNaN = False"
| "truthy (VStr s) = (s \<noteq> [])"
| "truthy (VArr xs) = True"
| "truthy (VObj kvs) = True"

text \<open>\<open>a || b\<close>\<close>

definition js_or :: "jsval \<Rightarrow> jsval \<Rightarrow> jsval" where
  "js_or a b = (if truthy a then a else b)"

text \<open>A request parameter or header is a string or \<open>undefined\<close>.\<close>

fun of_opt :: "jsstring option \<Rightarrow> jsval" where
  "of_opt None = Undefined"
| "of_opt (Some s) = VStr s"

subsection \<open>Decimal numerals\<close>

function digits :: "nat \<Rightarrow> jsstring" where
  "digits n = (if n < 10 then [of_nat (48 + n)] else digits (n div 10) @ [of_nat (48 + n mod 10)])"
  by pat_completeness auto
termination
  by (relation "measure id") auto

declare digits.simps [simp del]

text \<open>Number::toString on an integer.\<close>

definition int_to_string :: "int \<Rightarrow> jsstring" where
  "int_to_string n = (if n < 0 then js ''-'' @ digits (nat (- n)) else digits (nat n))"

text \<open>
  An array index is the canonical decimal numeral of an integer below \<open>2 ^ 32 - 1\<close>: no sign,
  no leading zero.
\<close>

definition is_digit :: "16 word \<Rightarrow> bool" where
  "is_digit c = (48 \<le> unat c \<and> unat c \<le> 57)"

fun digits_value :: "nat \<Rightarrow> jsstring \<Rightarrow> nat" where
  "digits_value acc [] = acc"
| "digits_value acc (c # cs) = digits_value (10 * acc + (unat c - 48)) cs"

definition array_index :: "jsstring \<Rightarrow> nat option" where
  "array_index k =
     (if k = [] \<or> \<not> list_all is_digit k then None
      else if hd k = 48 \<and> length k > 1 then None
      else if length k > 10 then None
      else if digits_value 0 k < 4294967295 then Some (digits_value 0 k) else None)"

subsection \<open>Objects and property access\<close>

text \<open>
  An object is the list of its own enumerable properties, in the order the engine
  enumerates them: array indices first, ascending, then the other keys in the order
  they were created. \<open>obj_define\<close> is CreateDataProperty, as \<open>JSON.parse\<close> uses it.
\<close>

fun insert_index :: "nat \<Rightarrow> jsstring \<Rightarrow> jsval \<Rightarrow> (jsstring \<times> jsval) list \<Rightarrow> (jsstring \<times> jsval) list" where
  "insert_index i k v [] = [(k, v)]"
| "insert_index i k v ((k', v') # kvs) =
     (case array_index k' of
        None \<Rightarrow> (k, v) # (k', v') # kvs
      | Some j \<Rightarrow> if i < j then (k, v) # (k', v') # kvs else (k', v') # insert_index i k v kvs)"

definition obj_define :: "(jsstring \<times> jsval) list \<Rightarrow> jsstring \<Rightarrow> jsval \<Rightarrow> (jsstring \<times> jsval) list" where
  "obj_define kvs k v =
     (if k \<in> fst ` set kvs then map (\<lambda>(k', v'). if k' = k then (k', v) else (k', v')) kvs
      else case array_index k of
        None \<Rightarrow> kvs @ [(k, v)]
      | Some i \<Rightarrow> insert_index i k v kvs)"

text \<open>
  \<open>o[k] = v\<close> on a plain object: assigning an object to the key \<open>__proto__\<close> sets the
  prototype and creates no own property.
\<close>

definition obj_assign :: "(jsstring \<times> jsval) list \<Rightarrow> jsstring \<Rightarrow> jsval \<Rightarrow> (jsstring \<times> jsval) list" where
  "obj_assign kvs k v = (if k = js ''__proto__'' then kvs else obj_define kvs k v)"

text \<open>
  \<open>v.k\<close>: reading a property of \<open>undefined\<close> or \<open>null\<close> throws a TypeError; a missing
  property reads as \<open>undefined\<close>. Arrays and strings have \<open>length\<close> and their indices.
  The property names of the source (\<open>user_id\<close>, \<open>access_token\<close>, \<open>data\<close>, \<open>id\<close>, ...)
  are defined by no builtin prototype, so only own properties are looked up.
\<close>

fun nth_opt :: "'a list \<Rightarrow> nat \<Rightarrow> 'a option" where
  "nth_opt [] n = None"
| "nth_opt (x # xs) 0 = Some x"
| "nth_opt (x # xs) (Suc n) = nth_opt xs n"

fun get_prop :: "jsval \<Rightarrow> jsstring \<Rightarrow> exn + jsval" where
  "get_prop Undefined k = Inl TypeError"
| "get_prop Null k = Inl TypeError"
| "get_prop (VObj kvs) k =
     (if k = js ''__proto__'' then Inl Unmodelled
      else case map_of kvs k of None \<Rightarrow> Inr Undefined | Some v \<Rightarrow> Inr v)"
| "get_prop (VArr xs) k =
     (if k = js ''length'' then Inr (VNum (int (length xs)))
      else case array_index k of
        None \<Rightarrow> Inr Undefined
      | Some i \<Rightarrow> (case nth_opt xs i of None \<Rightarrow> Inr Undefined | Some v \<Rightarrow> Inr v))"
| "get_prop (VStr s) k =
     (if k = js ''length'' then Inr (VNum (int (length s)))
      else case array_index k of
        None \<Rightarrow> Inr Undefined
      | Some i \<Rightarrow> (case nth_opt s i of None \<Rightarrow> Inr Undefined | Some c \<Rightarrow> Inr (VStr [c])))"
| "get_prop v k = Inr Undefined"

text \<open>\<open>v?.k\<close>\<close>

definition opt_prop :: "jsval \<Rightarrow> jsstring \<Rightarrow> exn + jsval" where
  "opt_prop v k = (if v = Undefined \<or> v = Null then Inr Undefined else get_prop v k)"

text \<open>Sequencing of computations that may throw.\<close>

fun thenR :: "exn + 'a \<Rightarrow> ('a \<Rightarrow> exn + 'b) \<Rightarrow> exn + 'b" where
  "thenR (Inl e) f = Inl e"
| "thenR (Inr v) f = f v"

subsection \<open>Numbers\<close>

text \<open>
  \<open>Number(v)\<close>. The conversion of a string goes through the numeric-literal grammar
  (white space, fractions, exponents, hexadecimal), and that of an object through its
  \<open>toString\<close>; both are outside the model.
\<close>

fun Number :: "jsval \<Rightarrow> exn + jsval" where
  "Number Undefined = Inr VNaN"
| "Number Null = Inr (VNum 0)"
| "Number (VBool b) = Inr (VNum (if b then 1 else 0))"
| "Number (VNum n) = Inr (VNum n)"
| "Number VNaN = Inr VNaN"
| "Number v = Inl Unmodelled"

text \<open>
  \<open>a + b\<close> on two numbers. The sum of two integers is exact when it lies within
  \<open>2 ^ 53\<close>; beyond that a double rounds, and the model declines.
\<close>

fun js_add :: "jsval \<Rightarrow> jsval \<Rightarrow> exn + jsval" where
  "js_add (VNum a) (VNum b) =
     (if \<bar>a + b\<bar> \<le> 9007199254740992 then Inr (VNum (a + b)) else Inl Unmodelled)"
| "js_add (VNum a) VNaN = Inr VNaN"
| "js_add VNaN (VNum b) = Inr VNaN"
| "js_add VNaN VNaN = Inr VNaN"
| "js_add a b = Inl Unmodelled"

section \<open>JSON.stringify\<close>

definition is_high :: "16 word \<Rightarrow> bool" where
  "is_high c = (0xD800 \<le> unat c \<and> unat c \<le> 0xDBFF)"

definition is_low :: "16 word \<Rightarrow> bool" where
  "is_low c = (0xDC00 \<le> unat c \<and> unat c \<le> 0xDFFF)"

definition hex_lower :: "nat \<Rightarrow> 16 word" where
  "hex_lower n = of_nat (if n < 10 then 48 + n else 87 + n)"

text \<open>UnicodeEscape: a backslash, \<open>u\<close> and four lower-case hexadecimal digits.\<close>

definition unicode_escape :: "16 word \<Rightarrow> jsstring" where
  "unicode_escape c =
     [0x5C, 0x75, hex_lower (unat c div 4096), hex_lower (unat c div 256 mod 16),
      hex_lower (unat c div 16 mod 16), hex_lower (unat c mod 16)]"

text \<open>One code unit that is not a surrogate, as QuoteJSONString writes it.\<close>

definition quote_unit :: "16 word \<Rightarrow> jsstring" where
  "quote_unit c =
     (if c = 0x08 then [0x5C, 0x62]
      else if c = 0x09 then [0x5C, 0x74]
      else if c = 0x0A then [0x5C, 0x6E]
      else if c = 0x0C then [0x5C, 0x66]
      else if c = 0x0D then [0x5C, 0x72]
      else if c = 0x22 then [0x5C, 0x22]
      else if c = 0x5C then [0x5C, 0x5C]
      else if unat c < 0x20 then unicode_escape c
      else [c])"

text \<open>
  QuoteJSONString walks the code points of the string: a surrogate pair is copied, a lone
  surrogate is escaped.
\<close>

fun quote_chars :: "jsstring \<Rightarrow> jsstring" where
  "quote_chars [] = []"
| "quote_chars [c] = (if is_high c \<or> is_low c then unicode_escape c else quote_unit c)"
| "quote_chars (c # d # cs) =
     (if is_high c then
        (if is_low d then c # d # quote_chars cs else unicode_escape c @ quote_chars (d # cs))
      else if is_low c then unicode_escape c @ quote_chars (d # cs)
      else quote_unit c @ quote_chars (d # cs))"

definition QuoteJSONString :: "jsstring \<Rightarrow> jsstring" where
  "QuoteJSONString s = [0x22] @ quote_chars s @ [0x22]"

fun join :: "jsstring \<Rightarrow> jsstring list \<Rightarrow> jsstring" where
  "join sep [] = []"
| "join sep [x] = x"
| "join sep (x # y # ys) = x @ sep @ join sep (y # ys)"

text \<open>
  SerializeJSONProperty: \<open>None\<close> is the result \<open>undefined\<close>. An \<open>undefined\<close> element of
  an array is written \<open>null\<close>, an \<open>undefined\<close> property of an object is left out.
\<close>

fun JSON_stringify :: "jsval \<Rightarrow> jsstring option" where
  "JSON_stringify Undefined = None"
| "JSON_stringify Null = Some (js ''null'')"
| "JSON_stringify (VBool b) = Some (if b then js ''true'' else js ''false'')"
| "JSON_stringify (VNum n) = Some (int_to_string n)"
| "JSON_stringify VNaN = Some (js ''null'')"
| "JSON_stringify (VStr s) = Some (QuoteJSONString s)"
| "JSON_stringify (VArr xs) =
     Some (js ''['' @
       join (js '','') (map (\<lambda>x. case JSON_stringify x of None \<Rightarrow> js ''null'' | Some t \<Rightarrow> t) xs)
       @ js '']'')"
| "JSON_stringify (VObj kvs) =
     Some (js ''{'' @
       join (js '','')
         (concat (map (\<lambda>(k, v). case JSON_stringify v of
                                   None \<Rightarrow> []
                                 | Some t \<Rightarrow> [QuoteJSONString k @ js '':'' @ t]) kvs))
       @ js ''}'')"

section \<open>JSON.parse\<close>

definition is_ws :: "16 word \<Rightarrow> bool" where
  "is_ws c = (c = 0x20 \<or> c = 0x09 \<or> c = 0x0A \<or> c = 0x0D)"

fun skip_ws :: "jsstring \<Rightarrow> jsstring" where
  "skip_ws [] = []"
| "skip_ws (c # cs) = (if is_ws c then skip_ws cs else c # cs)"

text \<open>The value of a hexadecimal digit, in either case.\<close>

definition hex_value :: "16 word \<Rightarrow> nat option" where
  "hex_value c =
     (if 48 \<le> unat c \<and> unat c \<le> 57 then Some (unat c - 48)
      else if 97 \<le> unat c \<and> unat c \<le> 102 then Some (unat c - 87)
      else if 65 \<le> unat c \<and> unat c \<le> 70 then Some (unat c - 55)
      else None)"

text \<open>The character after a backslash, other than \<open>u\<close>.\<close>

definition simple_escape :: "16 word \<Rightarrow> 16 word option" where
  "simple_escape e =
     (if e = 0x22 then Some 0x22
      else if e = 0x5C then Some 0x5C
      else if e = 0x2F then Some 0x2F
      else if e = 0x62 then Some 0x08
      else if e = 0x66 then Some 0x0C
      else if e = 0x6E then Some 0x0A
      else if e = 0x72 then Some 0x0D
      else if e = 0x74 then Some 0x09
      else None)"

definition hex4 :: "16 word \<Rightarrow> 16 word \<Rightarrow> 16 word \<Rightarrow> 16 word \<Rightarrow> 16 word option" where
  "hex4 a b c d =
     (case (hex_value a, hex_value b, hex_value c, hex_value d) of
        (Some x, Some y, Some z, Some w) \<Rightarrow> Some (of_nat (4096 * x + 256 * y + 16 * z + w))
      | _ \<Rightarrow> None)"

text \<open>
  The characters of a string literal after its opening quote: the contents and the text
  after the closing quote. A control character, an unknown escape and a missing closing
  quote are syntax errors (\<open>None\<close>).
\<close>

fun parse_string_chars :: "jsstring \<Rightarrow> (jsstring \<times> jsstring) option" where
  "parse_string_chars [] = None"
| "parse_string_chars (c # cs) =
     (if c = 0x22 then Some ([], cs)
      else if c = 0x5C then
        (case cs of
           [] \<Rightarrow> None
         | e # es \<Rightarrow>
             if e = 0x75 then
               (case es of
                  h1 # h2 # h3 # h4 # rest \<Rightarrow>
                    (case hex4 h1 h2 h3 h4 of
                       None \<Rightarrow> None
                     | Some u \<Rightarrow> map_option (\<lambda>(t, r). (u # t, r)) (parse_string_chars rest))
                | _ \<Rightarrow> None)
             else
               (case simple_escape e of
                  None \<Rightarrow> None
                | Some u \<Rightarrow> map_option (\<lambda>(t, r). (u # t, r)) (parse_string_chars es)))
      else if unat c < 0x20 then None
      else map_option (\<lambda>(t, r). (c # t, r)) (parse_string_chars cs))"

text \<open>
  A number literal: an optional minus sign, then \<open>0\<close> or a numeral without leading zero.
  A fraction or an exponent, and an integer beyond \<open>2 ^ 53\<close>, would need a double: the
  model declines. Minus zero is identified with zero.
\<close>

fun take_digits :: "jsstring \<Rightarrow> jsstring \<times> jsstring" where
  "take_digits [] = ([], [])"
| "take_digits (c # cs) =
     (if is_digit c then (case take_digits cs of (ds, rest) \<Rightarrow> (c # ds, rest)) else ([], c # cs))"

definition starts_fraction :: "jsstring \<Rightarrow> bool" where
  "starts_fraction s = (case s of [] \<Rightarrow> False | c # cs \<Rightarrow> c = 0x2E \<or> c = 0x65 \<or> c = 0x45)"

definition parse_unsigned :: "jsstring \<Rightarrow> exn + (nat \<times> jsstring)" where
  "parse_unsigned s =
     (case take_digits s of
        ([], rest) \<Rightarrow> Inl SyntaxError
      | (d # ds, rest) \<Rightarrow>
          if d = 48 \<and> ds \<noteq> [] then Inl SyntaxError
          else if starts_fraction rest then Inl Unmodelled
          else if digits_value 0 (d # ds) > 9007199254740992 then Inl Unmodelled
          else Inr (digits_value 0 (d # ds), rest))"

definition parse_number :: "jsstring \<Rightarrow> exn + (jsval \<times> jsstring)" where
  "parse_number s =
     (case s of
        [] \<Rightarrow> Inl SyntaxError
      | c # cs \<Rightarrow>
          if c = 0x2D
          then (case parse_unsigned cs of Inl e \<Rightarrow> Inl e | Inr (n, rest) \<Rightarrow> Inr (VNum (- int n), rest))
          else (case parse_unsigned s of Inl e \<Rightarrow> Inl e | Inr (n, rest) \<Rightarrow> Inr (VNum (int n), rest)))"

text \<open>\<open>true\<close>, \<open>false\<close> and \<open>null\<close>.\<close>

fun strip_prefix :: "jsstring \<Rightarrow> jsstring \<Rightarrow> jsstring option" where
  "strip_prefix [] s = Some s"
| "strip_prefix (p # ps) [] = None"
| "strip_prefix (p # ps) (c # cs) = (if p = c then strip_prefix ps cs else None)"

definition parse_literal :: "jsstring \<Rightarrow> exn + (jsval \<times> jsstring)" where
  "parse_literal s =
     (case strip_prefix (js ''true'') s of
        Some rest \<Rightarrow> Inr (VBool True, rest)
      | None \<Rightarrow>
     (case strip_prefix (js ''false'') s of
        Some rest \<Rightarrow> Inr (VBool False, rest)
      | None \<Rightarrow>
     (case strip_prefix (js ''null'') s of
        Some rest \<Rightarrow> Inr (Null, rest)
      | None \<Rightarrow> Inl SyntaxError)))"

text \<open>
  What follows a value inside an array or an object: a comma, the closing bracket, or a
  syntax error.
\<close>

datatype separator = Comma jsstring | Close jsstring | Neither

definition separator_after :: "16 word \<Rightarrow> jsstring \<Rightarrow> separator" where
  "separator_after close s =
     (case skip_ws s of
        [] \<Rightarrow> Neither
      | c # cs \<Rightarrow> if c = 0x2C then Comma cs else if c = close then Close cs else Neither)"

text \<open>The key of an object member and its colon.\<close>

definition parse_key :: "jsstring \<Rightarrow> (jsstring \<times> jsstring) option" where
  "parse_key s =
     (case skip_ws s of
        [] \<Rightarrow> None
      | c # cs \<Rightarrow>
          if c \<noteq> 0x22 then None
          else (case parse_string_chars cs of
                  None \<Rightarrow> None
                | Some (k, rest) \<Rightarrow>
                    (case skip_ws rest of
                       [] \<Rightarrow> None
                     | c' # cs' \<Rightarrow> if c' = 0x3A then Some (k, cs') else None)))"

text \<open>
  The recursive descent. The first argument bounds the number of nested and successive
  values still allowed; \<open>JSON_parse\<close> starts it above the length of the text. Should it
  run out, the model declines (\<open>Unmodelled\<close>) and reports no syntax error.
\<close>

fun parse_value :: "nat \<Rightarrow> jsstring \<Rightarrow> exn + (jsval \<times> jsstring)"
  and parse_elements :: "nat \<Rightarrow> jsval list \<Rightarrow> jsstring \<Rightarrow> exn + (jsval \<times> jsstring)"
  and parse_members :: "nat \<Rightarrow> (jsstring \<times> jsval) list \<Rightarrow> jsstring \<Rightarrow> exn + (jsval \<times> jsstring)"
where
  "parse_value 0 s = Inl Unmodelled"
| "parse_value (Suc n) s =
     (case skip_ws s of
        [] \<Rightarrow> Inl SyntaxError
      | c # cs \<Rightarrow>
          if c = 0x7B then
            (case separator_after 0x7D cs of Close rest \<Rightarrow> Inr (VObj [], rest) | _ \<Rightarrow> parse_members n [] cs)
          else if c = 0x5B then
            (case separator_after 0x5D cs of Close rest \<Rightarrow> Inr (VArr [], rest) | _ \<Rightarrow> parse_elements n [] cs)
          else if c = 0x22 then
            (case parse_string_chars cs of
               None \<Rightarrow> Inl SyntaxError
             | Some (t, rest) \<Rightarrow> Inr (VStr t, rest))
          else if c = 0x2D \<or> is_digit c then parse_number (c # cs)
          else parse_literal (c # cs))"
| "parse_elements 0 acc s = Inl Unmodelled"
| "parse_elements (Suc n) acc s =
     (case parse_value n s of
        Inl e \<Rightarrow> Inl e
      | Inr (v, rest) \<Rightarrow>
          (case separator_after 0x5D rest of
             Comma rest' \<Rightarrow> parse_elements n (acc @ [v]) rest'
           | Close rest' \<Rightarrow> Inr (VArr (acc @ [v]), rest')
           | Neither \<Rightarrow> Inl SyntaxError))"
| "parse_members 0 acc s = Inl Unmodelled"
| "parse_members (Suc n) acc s =
     (case parse_key s of
        None \<Rightarrow> Inl SyntaxError
      | Some (k, rest) \<Rightarrow>
          (case parse_value n rest of
             Inl e \<Rightarrow> Inl e
           | Inr (v, rest') \<Rightarrow>
               (case separator_after 0x7D rest' of
                  Comma rest'' \<Rightarrow> parse_members n (obj_define acc k v) rest''
                | Close rest'' \<Rightarrow> Inr (VObj (obj_define acc k v), rest'')
                | Neither \<Rightarrow> Inl SyntaxError)))"

text \<open>\<open>JSON.parse(text)\<close>: one value, with nothing but white space after it.\<close>

definition JSON_parse :: "jsstring \<Rightarrow> exn + jsval" where
  "JSON_parse s =
     (case parse_value (Suc (length s)) s of
        Inl e \<Rightarrow> Inl e
      | Inr (v, rest) \<Rightarrow> if skip_ws rest = [] then Inr v else Inl SyntaxError)"

section \<open>encodeURIComponent and decodeURIComponent\<close>

text \<open>The characters \<open>encodeURIComponent\<close> leaves as they are: letters, digits and \<open>-_.!~*'()\<close>.\<close>

definition uri_unescaped :: "16 word \<Rightarrow> bool" where
  "uri_unescaped c =
     ((65 \<le> unat c \<and> unat c \<le> 90) \<or> (97 \<le> unat c \<and> unat c \<le> 122) \<or> (48 \<le> unat c \<and> unat c \<le> 57)
      \<or> c \<in> set (js ''-_.!~*()'') \<or> c = 0x27)"

text \<open>The UTF-8 octets of a code point.\<close>

definition utf8_bytes :: "nat \<Rightarrow> nat list" where
  "utf8_bytes cp =
     (if cp < 0x80 then [cp]
      else if cp < 0x800 then [0xC0 + cp div 64, 0x80 + cp mod 64]
      else if cp < 0x10000 then [0xE0 + cp div 4096, 0x80 + cp div 64 mod 64, 0x80 + cp mod 64]
      else [0xF0 + cp div 262144, 0x80 + cp div 4096 mod 64, 0x80 + cp div 64 mod 64,
            0x80 + cp mod 64])"

definition hex_upper :: "nat \<Rightarrow> 16 word" where
  "hex_upper n = of_nat (if n < 10 then 48 + n else 55 + n)"

definition percent :: "nat \<Rightarrow> jsstring" where
  "percent b = [0x25, hex_upper (b div 16), hex_upper (b mod 16)]"

definition percent_encode :: "nat \<Rightarrow> jsstring" where
  "percent_encode cp = concat (map percent (utf8_bytes cp))"

text \<open>The code point of a surrogate pair.\<close>

definition pair_code_point :: "16 word \<Rightarrow> 16 word \<Rightarrow> nat" where
  "pair_code_point hi lo = 0x10000 + (unat hi - 0xD800) * 1024 + (unat lo - 0xDC00)"

text \<open>\<open>encodeURIComponent(s)\<close>; a lone surrogate throws a URIError.\<close>

fun encodeURIComponent :: "jsstring \<Rightarrow> exn + jsstring" where
  "encodeURIComponent [] = Inr []"
| "encodeURIComponent [c] =
     (if uri_unescaped c then Inr [c]
      else if is_high c \<or> is_low c then Inl URIError
      else Inr (percent_encode (unat c)))"
| "encodeURIComponent (c # d # cs) =
     (if uri_unescaped c then thenR (encodeURIComponent (d # cs)) (\<lambda>r. Inr (c # r))
      else if is_low c then Inl URIError
      else if is_high c then
        (if is_low d
         then thenR (encodeURIComponent cs) (\<lambda>r. Inr (percent_encode (pair_code_point c d) @ r))
         else Inl URIError)
      else thenR (encodeURIComponent (d # cs)) (\<lambda>r. Inr (percent_encode (unat c) @ r)))"

text \<open>Two hexadecimal digits.\<close>

fun hex_octet :: "jsstring \<Rightarrow> (nat \<times> jsstring) option" where
  "hex_octet (a # b # rest) =
     (case (hex_value a, hex_value b) of
        (Some x, Some y) \<Rightarrow> Some (16 * x + y, rest)
      | _ \<Rightarrow> None)"
| "hex_octet s = None"

text \<open>The number of leading 1 bits of an octet.\<close>

definition leading_ones :: "nat \<Rightarrow> nat" where
  "leading_ones b =
     (if b < 0x80 then 0 else if b < 0xC0 then 1 else if b < 0xE0 then 2
      else if b < 0xF0 then 3 else if b < 0xF8 then 4 else 5)"

text \<open>The \<open>n\<close> escaped octets that continue a multi-octet sequence.\<close>

fun continuation :: "nat \<Rightarrow> jsstring \<Rightarrow> (nat list \<times> jsstring) option" where
  "continuation 0 s = Some ([], s)"
| "continuation (Suc n) [] = None"
| "continuation (Suc n) (c # cs) =
     (if c \<noteq> 0x25 then None
      else (case hex_octet cs of
              None \<Rightarrow> None
            | Some (b, rest) \<Rightarrow> map_option (\<lambda>(bs, r). (b # bs, r)) (continuation n rest)))"

text \<open>
  The code point of a multi-octet sequence, if it is valid UTF-8: continuation octets
  \<open>10xxxxxx\<close>, the shortest encoding, no surrogate, at most \<open>0x10FFFF\<close>.
\<close>

definition utf8_decode :: "nat \<Rightarrow> nat list \<Rightarrow> nat option" where
  "utf8_decode b0 bs =
     (if \<not> list_all (\<lambda>b. 0x80 \<le> b \<and> b < 0xC0) bs then None
      else case bs of
        [b1] \<Rightarrow>
          (let cp = (b0 - 0xC0) * 64 + (b1 - 0x80) in if cp < 0x80 then None else Some cp)
      | [b1, b2] \<Rightarrow>
          (let cp = (b0 - 0xE0) * 4096 + (b1 - 0x80) * 64 + (b2 - 0x80)
           in if cp < 0x800 \<or> (0xD800 \<le> cp \<and> cp \<le> 0xDFFF) then None else Some cp)
      | [b1, b2, b3] \<Rightarrow>
          (let cp = (b0 - 0xF0) * 262144 + (b1 - 0x80) * 4096 + (b2 - 0x80) * 64 + (b3 - 0x80)
           in if cp < 0x10000 \<or> 0x10FFFF < cp then None else Some cp)
      | _ \<Rightarrow> None)"

text \<open>UTF16EncodeCodePoint\<close>

definition utf16 :: "nat \<Rightarrow> jsstring" where
  "utf16 cp =
     (if cp < 0x10000 then [of_nat cp]
      else [of_nat (0xD800 + (cp - 0x10000) div 1024), of_nat (0xDC00 + (cp - 0x10000) mod 1024)])"

lemma hex_octet_shorter: "hex_octet s = Some (b, rest) \<Longrightarrow> length rest < length s"
  by (induction s rule: hex_octet.induct) (auto split: option.splits)

lemma continuation_shorter: "continuation n s = Some (bs, rest) \<Longrightarrow> length rest \<le> length s"
proof (induction n s arbitrary: bs rest rule: continuation.induct)
  case (3 n c cs)
  then show ?case
    by (fastforce split: if_splits option.splits dest: hex_octet_shorter)
qed auto

text \<open>
  \<open>decodeURIComponent(s)\<close>: a character other than \<open>%\<close> is copied; \<open>%XX\<close> below
  \<open>0x80\<close> is that character; otherwise the first octet announces the length of a UTF-8
  sequence, whose code point is written in UTF-16. Anything else throws a URIError.
\<close>

function decodeURIComponent :: "jsstring \<Rightarrow> exn + jsstring" where
  "decodeURIComponent [] = Inr []"
| "decodeURIComponent (c # cs) =
     (if c \<noteq> 0x25 then thenR (decodeURIComponent cs) (\<lambda>r. Inr (c # r))
      else
        (case hex_octet cs of
           None \<Rightarrow> Inl URIError
         | Some (b, rest) \<Rightarrow>
             if leading_ones b = 0 then thenR (decodeURIComponent rest) (\<lambda>r. Inr (of_nat b # r))
             else if leading_ones b = 1 \<or> leading_ones b > 4 then Inl URIError
             else
               (case continuation (leading_ones b - 1) rest of
                  None \<Rightarrow> Inl URIError
                | Some (bs, rest') \<Rightarrow>
                    (case utf8_decode b bs of
                       None \<Rightarrow> Inl URIError
                     | Some cp \<Rightarrow> thenR (decodeURIComponent rest') (\<lambda>r. Inr (utf16 cp @ r))))))"
  by pat_completeness auto
termination
proof (relation "measure length", goal_cases)
  case 1
  show ?case by simp
next
  case (2 c cs)
  show ?case by simp
next
  case (3 c cs x2 b rest)
  then show ?case
    using hex_octet_shorter [of cs b rest] by simp
next
  case (4 c cs x2 b rest x2a bs rest' cp)
  then show ?case
    using hex_octet_shorter [of cs b rest] continuation_shorter [of "leading_ones b - 1" rest bs rest']
    by simp
qed

section \<open>The state parameter\<close>

text \<open>
  Every start route builds the state the same way:
  \<^verbatim>\<open>const state = encodeURIComponent(JSON.stringify({ user_id }));\<close>
  (where \<open>JSON.stringify\<close> answers \<open>undefined\<close>, the string conversion writes
  \<open>undefined\<close>).
\<close>

definition encode_state :: "jsval \<Rightarrow> exn + jsstring" where
  "encode_state uid =
     encodeURIComponent
       (case JSON_stringify (VObj [(js ''user_id'', uid)]) of
          None \<Rightarrow> js ''undefined''
        | Some s \<Rightarrow> s)"

text \<open>
  Every callback route reads it back the same way:
  \<^verbatim>\<open>const parsedState = state ? JSON.parse(decodeURIComponent(state)) : {};
  const userId = parsedState.user_id || 'unknown';\<close>
\<close>

fun parse_state :: "jsstring option \<Rightarrow> exn + jsval" where
  "parse_state None = Inr (VObj [])"
| "parse_state (Some s) =
     (if s = [] then Inr (VObj []) else thenR (decodeURIComponent s) JSON_parse)"

definition state_user :: "jsval \<Rightarrow> exn + jsval" where
  "state_user parsedState =
     thenR (get_prop parsedState (js ''user_id'')) (\<lambda>u. Inr (js_or u (VStr (js ''unknown''))))"

definition decode_state :: "jsstring option \<Rightarrow> exn + jsval" where
  "decode_state st = thenR (parse_state st) state_user"

section \<open>db.js\<close>

text \<open>
  A column value as SQLite stores it and as the driver hands it back: \<open>NULL\<close>, an integer
  or a text.
\<close>

datatype sqlval = SNull | SInt int | SText jsstring

text \<open>A row of \<open>social_accounts\<close>, with the columns of the CREATE TABLE statement.\<close>

record row =
  row_id :: int
  user_id :: sqlval
  platform :: sqlval
  platform_user_id :: sqlval
  access_token :: sqlval
  refresh_token :: sqlval
  meta_json :: sqlval
  expires_at :: sqlval
  created_at :: sqlval

text \<open>
  The database file: the uniqueness constraints (PRIMARY KEY and UNIQUE column lists) of
  the table \<open>social_accounts\<close>, its rows in the order of their \<open>id\<close> (the rowid), and
  the AUTOINCREMENT counter. The constraints are part of the state because the schema
  lives in the file: \<open>CREATE TABLE IF NOT EXISTS\<close> declares the table only when the file
  does not have it yet.
\<close>

record db =
  uniques :: "string list list"
  rows :: "row list"
  seq :: int

text \<open>
  The table as \<open>db.js\<close> declares it. Its only uniqueness constraint is the primary key
  \<open>id\<close>; no UNIQUE clause or index covers \<open>(user_id, platform)\<close>.
\<close>

definition social_accounts_schema :: "string list list" where
  "social_accounts_schema = [[''id'']]"

text \<open>
  \<open>db.exec(CREATE TABLE IF NOT EXISTS ...)\<close> at module load: \<open>None\<close> is a file without
  the table.
\<close>

fun open_db :: "db option \<Rightarrow> db" where
  "open_db None = \<lparr>uniques = social_accounts_schema, rows = [], seq = 0\<rparr>"
| "open_db (Some d) = d"

text \<open>
  Preparing \<open>INSERT ... ON CONFLICT(target) DO UPDATE\<close>: SQLite accepts the statement only
  if the conflict target is the column set of a PRIMARY KEY or UNIQUE constraint of the
  table, and otherwise fails with the message below.
\<close>

definition conflict_target_ok :: "string list list \<Rightarrow> string list \<Rightarrow> bool" where
  "conflict_target_ok us target = list_ex (\<lambda>u. set u = set target) us"

definition no_constraint_msg :: string where
  "no_constraint_msg = ''ON CONFLICT clause does not match any PRIMARY KEY or UNIQUE constraint''"

text \<open>
  Only two shapes of the table are modelled: the declared one, and the declared one with
  the constraint \<open>UNIQUE(user_id, platform)\<close> added. No other constraint, trigger or
  column is assumed.
\<close>

definition modelled_schema :: "string list list \<Rightarrow> bool" where
  "modelled_schema us = list_all (\<lambda>u. u = [''id''] \<or> u = [''user_id'', ''platform'']) us"

text \<open>
  The text SQLite holds for a JavaScript string. The driver hands the string over as
  UTF-8, in which a surrogate that is not half of a pair is written as U+FFFD; read back,
  the text is the string with every such surrogate replaced.
\<close>

fun to_well_formed :: "jsstring \<Rightarrow> jsstring" where
  "to_well_formed [] = []"
| "to_well_formed [c] = [if is_high c \<or> is_low c then 0xFFFD else c]"
| "to_well_formed (c # d # cs) =
     (if is_high c \<and> is_low d then c # d # to_well_formed cs
      else if is_high c \<or> is_low c then 0xFFFD # to_well_formed (d # cs)
      else c # to_well_formed (d # cs))"

text \<open>
  Binding a parameter: the driver binds numbers and strings, binds \<open>null\<close> and
  \<open>undefined\<close> as \<open>NULL\<close>, and throws a TypeError on anything else (booleans, arrays,
  objects); SQLite stores a bound \<open>NaN\<close> as \<open>NULL\<close>. A number bound to a TEXT column
  and a string bound to an INTEGER column are converted by the column's affinity, which
  is outside the model.
\<close>

fun bind_text :: "jsval \<Rightarrow> exn + sqlval" where
  "bind_text Undefined = Inr SNull"
| "bind_text Null = Inr SNull"
| "bind_text (VStr s) = Inr (SText (to_well_formed s))"
| "bind_text VNaN = Inr SNull"
| "bind_text (VNum n) = Inl Unmodelled"
| "bind_text v = Inl TypeError"

fun bind_integer :: "jsval \<Rightarrow> exn + sqlval" where
  "bind_integer Undefined = Inr SNull"
| "bind_integer Null = Inr SNull"
| "bind_integer (VNum n) = Inr (SInt n)"
| "bind_integer VNaN = Inr SNull"
| "bind_integer (VStr s) = Inl Unmodelled"
| "bind_integer v = Inl TypeError"

text \<open>The argument object of \<open>saveAccount\<close>.\<close>

record account_args =
  userId :: jsval
  platform' :: jsval
  platformUserId :: jsval
  accessToken :: jsval
  refreshToken :: jsval
  meta :: jsval
  expiresAt :: jsval

text \<open>A destructuring default \<open>= null\<close> applies when the property is \<open>undefined\<close>.\<close>

definition default_null :: "jsval \<Rightarrow> jsval" where
  "default_null v = (if v = Undefined then Null else v)"

text \<open>\<open>meta ? JSON.stringify(meta) : null\<close>\<close>

definition meta_param :: "jsval \<Rightarrow> jsval" where
  "meta_param m = (if truthy m then of_opt (JSON_stringify m) else Null)"

text \<open>
  Two rows conflict on \<open>(user_id, platform)\<close> when both columns are equal and not
  \<open>NULL\<close> (SQLite treats \<open>NULL\<close>s as distinct in a uniqueness constraint).
\<close>

definition same_key :: "sqlval \<Rightarrow> sqlval \<Rightarrow> row \<Rightarrow> bool" where
  "same_key u p r = (u \<noteq> SNull \<and> p \<noteq> SNull \<and> user_id r = u \<and> platform r = p)"

text \<open>
  Running the statement on a table that has the constraint: a conflicting row gets the
  five columns of the DO UPDATE clause; otherwise a new row is inserted, with the next
  \<open>id\<close> and the default \<open>created_at\<close> (the time of the insertion, in epoch seconds).
  Either way the statement takes a fresh number from the AUTOINCREMENT counter.
\<close>

definition do_update :: "sqlval \<Rightarrow> sqlval \<Rightarrow> sqlval \<Rightarrow> sqlval \<Rightarrow> sqlval \<Rightarrow> row \<Rightarrow> row" where
  "do_update pu at rt mj ex r =
     r\<lparr>platform_user_id := pu, access_token := at, refresh_token := rt, meta_json := mj,
       expires_at := ex\<rparr>"

definition upsert :: "db \<Rightarrow> int \<Rightarrow> sqlval \<Rightarrow> sqlval \<Rightarrow> sqlval \<Rightarrow> sqlval \<Rightarrow> sqlval \<Rightarrow> sqlval \<Rightarrow> sqlval \<Rightarrow> db" where
  "upsert d now u p pu at rt mj ex =
     (if list_ex (same_key u p) (rows d)
      then d\<lparr>rows := map (\<lambda>r. if same_key u p r then do_update pu at rt mj ex r else r) (rows d),
             seq := seq d + 1\<rparr>
      else d\<lparr>rows := rows d @
                 [\<lparr>row_id = seq d + 1, user_id = u, platform = p, platform_user_id = pu,
                   access_token = at, refresh_token = rt, meta_json = mj, expires_at = ex,
                   created_at = SInt now\<rparr>],
             seq := seq d + 1\<rparr>)"

text \<open>
  \<open>saveAccount\<close>: \<open>db.prepare\<close> first (it throws when SQLite rejects the statement),
  then \<open>stmt.run\<close> with the seven named parameters. \<open>now\<close> is the database clock.
\<close>

definition saveAccount :: "db \<Rightarrow> int \<Rightarrow> account_args \<Rightarrow> exn + db" where
  "saveAccount d now a =
     (if \<not> conflict_target_ok (uniques d) [''user_id'', ''platform'']
      then Inl (SqliteError no_constraint_msg)
      else if \<not> modelled_schema (uniques d) then Inl Unmodelled
      else
        thenR (bind_text (userId a)) (\<lambda>u.
        thenR (bind_text (platform' a)) (\<lambda>p.
        thenR (bind_text (platformUserId a)) (\<lambda>pu.
        thenR (bind_text (accessToken a)) (\<lambda>at.
        thenR (bind_text (default_null (refreshToken a))) (\<lambda>rt.
        thenR (bind_text (meta_param (default_null (meta a)))) (\<lambda>mj.
        thenR (bind_integer (default_null (expiresAt a))) (\<lambda>ex.
          Inr (upsert d now u p pu at rt mj ex)))))))))"

text \<open>
  The order of two column values in an index (the BINARY collation): \<open>NULL\<close> first, then
  the integers by value, then the texts by their UTF-8 octets, a proper prefix before the
  longer text.
\<close>

fun utf8 :: "jsstring \<Rightarrow> nat list" where
  "utf8 [] = []"
| "utf8 [c] = utf8_bytes (unat c)"
| "utf8 (c # d # cs) =
     (if is_high c \<and> is_low d then utf8_bytes (pair_code_point c d) @ utf8 cs
      else utf8_bytes (unat c) @ utf8 (d # cs))"

fun octets_le :: "nat list \<Rightarrow> nat list \<Rightarrow> bool" where
  "octets_le [] ys = True"
| "octets_le (x # xs) [] = False"
| "octets_le (x # xs) (y # ys) = (x < y \<or> (x = y \<and> octets_le xs ys))"

fun sql_le :: "sqlval \<Rightarrow> sqlval \<Rightarrow> bool" where
  "sql_le SNull v = True"
| "sql_le (SInt a) SNull = False"
| "sql_le (SInt a) (SInt b) = (a \<le> b)"
| "sql_le (SInt a) (SText t) = True"
| "sql_le (SText s) (SText t) = octets_le (utf8 s) (utf8 t)"
| "sql_le (SText s) v = False"

text \<open>
  The rows in the order of an index on a column: by the column, rows with equal values in
  the order of their rowid, which is the order they have in the table.
\<close>

fun insert_by :: "('a \<Rightarrow> sqlval) \<Rightarrow> 'a \<Rightarrow> 'a list \<Rightarrow> 'a list" where
  "insert_by col x [] = [x]"
| "insert_by col x (y # ys) =
     (if sql_le (col x) (col y) then x # y # ys else y # insert_by col x ys)"

definition index_order :: "('a \<Rightarrow> sqlval) \<Rightarrow> 'a list \<Rightarrow> 'a list" where
  "index_order col rs = foldr (insert_by col) rs []"

text \<open>
  \<open>SELECT * FROM social_accounts WHERE user_id = ?\<close>, the parameter bound as a text. The
  statement has no ORDER BY: on the declared table SQLite scans the rows in rowid order;
  on a table with \<open>UNIQUE(user_id, platform)\<close> it looks the user up in the index of that
  constraint and answers in the order of the index, by platform.
\<close>

definition select_user :: "db \<Rightarrow> jsstring \<Rightarrow> row list" where
  "select_user d u =
     (if [''user_id'', ''platform''] \<in> set (uniques d)
      then index_order platform (filter (\<lambda>r. user_id r = SText (to_well_formed u)) (rows d))
      else filter (\<lambda>r. user_id r = SText (to_well_formed u)) (rows d))"

text \<open>
  \<open>SELECT * FROM social_accounts WHERE user_id = ? AND platform = ? LIMIT 1\<close>: the first
  matching row in rowid order, with or without the index.
\<close>

definition select_account :: "db \<Rightarrow> jsstring \<Rightarrow> jsstring \<Rightarrow> row option" where
  "select_account d u p =
     (case filter (\<lambda>r. user_id r = SText (to_well_formed u) \<and> platform r = SText (to_well_formed p))
             (rows d) of
        [] \<Rightarrow> None
      | r # rs \<Rightarrow> Some r)"

text \<open>\<open>deleteAccount\<close>\<close>

definition deleteAccount :: "db \<Rightarrow> jsstring \<Rightarrow> jsstring \<Rightarrow> db" where
  "deleteAccount d u p =
     d\<lparr>rows := filter (\<lambda>r. \<not> (user_id r = SText (to_well_formed u)
                                \<and> platform r = SText (to_well_formed p))) (rows d)\<rparr>"

text \<open>What the driver hands back for a column.\<close>

fun of_sql :: "sqlval \<Rightarrow> jsval" where
  "of_sql SNull = Null"
| "of_sql (SInt n) = VNum n"
| "of_sql (SText s) = VStr s"

text \<open>
  String conversion, as a template literal, a property key and \<open>JSON.parse\<close> apply it to
  their argument.
\<close>

fun to_string :: "jsval \<Rightarrow> jsstring" where
  "to_string Undefined = js ''undefined''"
| "to_string Null = js ''null''"
| "to_string (VBool b) = (if b then js ''true'' else js ''false'')"
| "to_string (VNum n) = int_to_string n"
| "to_string VNaN = js ''NaN''"
| "to_string (VStr s) = s"
| "to_string (VArr xs) =
     join (js '','') (map (\<lambda>x. if x = Undefined \<or> x = Null then [] else to_string x) xs)"
| "to_string (VObj kvs) = js ''[object Object]''"

text \<open>
  \<open>getAccountsForUser\<close>: each row of the user with
  \<^verbatim>\<open>meta: r.meta_json ? JSON.parse(r.meta_json) : null\<close> added. It throws when a stored
  \<open>meta_json\<close> is not JSON. On a table of another shape than the two modelled ones the
  model does not say which rows come first.
\<close>

definition row_meta :: "row \<Rightarrow> exn + jsval" where
  "row_meta r =
     (if truthy (of_sql (meta_json r)) then JSON_parse (to_string (of_sql (meta_json r)))
      else Inr Null)"

fun with_meta :: "row list \<Rightarrow> exn + (row \<times> jsval) list" where
  "with_meta [] = Inr []"
| "with_meta (r # rs) =
     thenR (row_meta r) (\<lambda>m. thenR (with_meta rs) (\<lambda>ms. Inr ((r, m) # ms)))"

definition getAccountsForUser :: "db \<Rightarrow> jsstring \<Rightarrow> exn + (row \<times> jsval) list" where
  "getAccountsForUser d u =
     (if \<not> modelled_schema (uniques d) then Inl Unmodelled else with_meta (select_user d u))"

text \<open>\<open>getAccount\<close>\<close>

definition getAccount :: "db \<Rightarrow> jsstring \<Rightarrow> jsstring \<Rightarrow> exn + (row \<times> jsval) option" where
  "getAccount d u p =
     (case select_account d u p of
        None \<Rightarrow> Inr None
      | Some r \<Rightarrow> thenR (row_meta r) (\<lambda>m. Inr (Some (r, m))))"

section \<open>Requests, responses and the outside world\<close>

text \<open>
  A response: \<open>res.status(n).send(text)\<close> (\<open>res.send\<close> alone answers 200),
  \<open>res.status(n).json(value)\<close>, or \<open>res.redirect(url)\<close>, the URL kept as its base and
  the parameters handed to \<open>queryString.stringify\<close>.
\<close>

datatype response =
    Send nat jsstring
  | SendJson nat jsval
  | Redirect jsstring "(jsstring \<times> jsval) list"

text \<open>
  A route handler returns the response it sent, or the exception it ended with. For the
  callback routes, which are \<open>async\<close> functions, an exception means the promise is
  rejected and no response is sent; for the synchronous routes it goes to the framework's
  error handler. The handler also returns the database as it leaves it.
\<close>

type_synonym 'a io = "db \<Rightarrow> (exn + 'a) \<times> db"

definition bindE :: "exn + 'a \<Rightarrow> ('a \<Rightarrow> 'b io) \<Rightarrow> 'b io" where
  "bindE r f d = (case r of Inl e \<Rightarrow> (Inl e, d) | Inr v \<Rightarrow> f v d)"

definition respond :: "response \<Rightarrow> response io" where
  "respond r d = (Inr r, d)"

text \<open>A call of \<open>saveAccount\<close> inside a handler, followed by the rest of the handler.\<close>

definition save :: "int \<Rightarrow> account_args \<Rightarrow> 'a io \<Rightarrow> 'a io" where
  "save now a k d = (case saveAccount d now a of Inl e \<Rightarrow> (Inl e, d) | Inr d' \<Rightarrow> k d')"

text \<open>
  \<^verbatim>\<open>try { body } catch (err) { console.error(...); res.status(500).send(text) }\<close>
\<close>

definition try_catch :: "response io \<Rightarrow> response \<Rightarrow> response io" where
  "try_catch body r d =
     (case body d of
        (Inl e, d') \<Rightarrow> if e = Unmodelled then (Inl e, d') else (Inr r, d')
      | (Inr v, d') \<Rightarrow> (Inr v, d'))"

text \<open>
  The requests the callbacks send to the providers, by endpoint, with the values the
  handler puts into them (the client identifiers and secrets of the configuration go with
  each request and are not shown).
\<close>

datatype outbound =
    MetaAccessToken jsval
  | MetaExchangeToken jsval
  | MetaAccounts jsval
  | MetaPage jsval jsval
  | YoutubeToken jsval
  | YoutubeChannels jsval
  | XToken jsval
  | XMe jsval
  | PinterestToken jsval
  | PinterestAccount jsval
  | LinkedinToken jsval
  | LinkedinMe jsval

text \<open>
  The world outside the process during one request: what the HTTP client returns for
  each request (\<open>res.data\<close>, or \<open>HttpError\<close> when the call fails or the status is an
  error), the value of \<open>Date.now()\<close> in milliseconds (between 0 and \<open>2 ^ 53\<close>, where the
  division by 1000 and the rounding down are exact), and the database clock in seconds.
\<close>

record env =
  http :: "outbound \<Rightarrow> exn + jsval"
  date_now :: int
  db_now :: int

text \<open>\<open>Math.floor(Date.now()/1000)\<close>\<close>

definition epoch_seconds :: "env \<Rightarrow> jsval" where
  "epoch_seconds w = VNum (date_now w div 1000)"

text \<open>
  The query parameters of a callback request, each a string or absent. (A repeated or
  bracketed parameter, which the query parser turns into an array or an object, is
  outside the model.)
\<close>

record callback_query =
  code :: "jsstring option"
  state :: "jsstring option"

section \<open>routes/credentials.js\<close>

text \<open>
  \<open>s.replace(pattern, replacement)\<close> with a string pattern replaces the first occurrence
  (the replacement here is the empty string, which has no \<open>$\<close> pattern).
\<close>

fun replace_first :: "jsstring \<Rightarrow> jsstring \<Rightarrow> jsstring \<Rightarrow> jsstring" where
  "replace_first pat rep [] = (if pat = [] then rep else [])"
| "replace_first pat rep (c # cs) =
     (case strip_prefix pat (c # cs) of
        Some rest \<Rightarrow> rep @ rest
      | None \<Rightarrow> c # replace_first pat rep cs)"

text \<open>\<^verbatim>\<open>const serviceToken = req.get('Authorization')?.replace('Bearer ', '');\<close>\<close>

definition presented_secret :: "jsstring option \<Rightarrow> jsstring option" where
  "presented_secret authorization = map_option (replace_first (js ''Bearer '') []) authorization"

definition unauthorized :: response where
  "unauthorized = SendJson 401 (VObj [(js ''error'', VStr (js ''Unauthorized''))])"

text \<open>
  The loop that builds \<open>tokens\<close>: one entry per account, keyed by its platform; a later
  account of the same platform overwrites the entry.
\<close>

definition token_entry :: "row \<times> jsval \<Rightarrow> jsval" where
  "token_entry a =
     VObj [(js ''access_token'', of_sql (access_token (fst a))),
           (js ''refresh_token'', of_sql (refresh_token (fst a))),
           (js ''platform_user_id'', of_sql (platform_user_id (fst a))),
           (js ''meta'', snd a)]"

fun build_tokens :: "(jsstring \<times> jsval) list \<Rightarrow> (row \<times> jsval) list \<Rightarrow> (jsstring \<times> jsval) list" where
  "build_tokens tokens [] = tokens"
| "build_tokens tokens (a # as) =
     build_tokens (obj_assign tokens (to_string (of_sql (platform (fst a)))) (token_entry a)) as"

text \<open>
  \<open>GET /v1/users/:userId/credentials\<close>. \<open>service_token\<close> is
  \<open>process.env.SERVICE_TOKEN\<close>, \<open>authorization\<close> the request's Authorization header.
\<close>

definition credentials :: "jsstring option \<Rightarrow> db \<Rightarrow> jsstring option \<Rightarrow> jsstring \<Rightarrow> exn + response" where
  "credentials service_token d authorization user =
     (if \<not> truthy (of_opt (presented_secret authorization)) then Inr unauthorized
      else if of_opt (presented_secret authorization) \<noteq> of_opt service_token then Inr unauthorized
      else
        thenR (getAccountsForUser d user) (\<lambda>accounts.
          Inr (SendJson 200
            (VObj [(js ''userId'', VStr user), (js ''tokens'', VObj (build_tokens [] accounts))]))))"

section \<open>The OAuth routes\<close>

datatype provider = PMeta | PYouTube | PX | PPinterest | PLinkedIn

subsection \<open>Start\<close>

text \<open>
  The client identifier and the redirect URI of a provider, from the environment
  (\<open>undefined\<close> when the variable is not set).
\<close>

record client =
  client_id :: jsval
  redirect_uri :: jsval

definition authorization_endpoint :: "provider \<Rightarrow> jsstring" where
  "authorization_endpoint p =
     (case p of
        PMeta \<Rightarrow> js ''https://www.facebook.com/v17.0/dialog/oauth?''
      | PYouTube \<Rightarrow> js ''https://accounts.google.com/o/oauth2/v2/auth?''
      | PX \<Rightarrow> js ''https://twitter.com/i/oauth2/authorize?''
      | PPinterest \<Rightarrow> js ''https://www.pinterest.com/oauth/?''
      | PLinkedIn \<Rightarrow> js ''https://www.linkedin.com/oauth/v2/authorization?'')"

definition authorization_params :: "provider \<Rightarrow> client \<Rightarrow> jsstring \<Rightarrow> (jsstring \<times> jsval) list" where
  "authorization_params p c st =
     (case p of
        PMeta \<Rightarrow>
          [(js ''client_id'', client_id c), (js ''redirect_uri'', redirect_uri c),
           (js ''scope'', VStr (js ''pages_show_list,instagram_basic,instagram_content_publish,pages_read_engagement,pages_manage_posts'')),
           (js ''state'', VStr st)]
      | PYouTube \<Rightarrow>
          [(js ''client_id'', client_id c), (js ''redirect_uri'', redirect_uri c),
           (js ''response_type'', VStr (js ''code'')),
           (js ''scope'', VStr (js ''https://www.googleapis.com/auth/youtube.upload https://www.googleapis.com/auth/youtube.readonly openid email profile'')),
           (js ''access_type'', VStr (js ''offline'')), (js ''prompt'', VStr (js ''consent'')),
           (js ''state'', VStr st)]
      | PX \<Rightarrow>
          [(js ''response_type'', VStr (js ''code'')), (js ''client_id'', client_id c),
           (js ''redirect_uri'', redirect_uri c),
           (js ''scope'', VStr (js ''tweet.read tweet.write users.read offline.access'')),
           (js ''state'', VStr st), (js ''code_challenge'', VStr (js ''challenge'')),
           (js ''code_challenge_method'', VStr (js ''plain''))]
      | PPinterest \<Rightarrow>
          [(js ''response_type'', VStr (js ''code'')), (js ''client_id'', client_id c),
           (js ''redirect_uri'', redirect_uri c), (js ''state'', VStr st),
           (js ''scope'', VStr (js ''pins:write,boards:read''))]
      | PLinkedIn \<Rightarrow>
          [(js ''response_type'', VStr (js ''code'')), (js ''client_id'', client_id c),
           (js ''redirect_uri'', redirect_uri c),
           (js ''scope'', VStr (js ''w_member_social r_liteprofile'')), (js ''state'', VStr st)])"

text \<open>
  \<open>GET /auth/<provider>/start\<close>, the same in the five route files but for the endpoint
  and the parameters. \<open>uid\<close> is \<open>req.query.user_id\<close>.
\<close>

definition start :: "provider \<Rightarrow> client \<Rightarrow> jsstring option \<Rightarrow> exn + response" where
  "start p c uid =
     (if \<not> truthy (of_opt uid) then Inr (Send 400 (js ''Missing user_id''))
      else thenR (encode_state (of_opt uid)) (\<lambda>st.
             Inr (Redirect (authorization_endpoint p) (authorization_params p c st))))"

subsection \<open>routes/meta.js\<close>

text \<open>
  \<^verbatim>\<open>longRes.data.expires_in ? Math.floor(Date.now()/1000) + Number(longRes.data.expires_in) : null\<close>
\<close>

definition meta_expires_at :: "env \<Rightarrow> jsval \<Rightarrow> exn + jsval" where
  "meta_expires_at w expires_in =
     (if truthy expires_in then thenR (Number expires_in) (js_add (epoch_seconds w)) else Inr Null)"

text \<open>The body of the \<open>try\<close> block after the check for the code.\<close>

definition meta_exchange :: "env \<Rightarrow> jsval \<Rightarrow> jsval \<Rightarrow> jsval \<Rightarrow> response io" where
  "meta_exchange w code' parsedState user =
     bindE (http w (MetaAccessToken code')) (\<lambda>tokenRes.
     bindE (get_prop tokenRes (js ''access_token'')) (\<lambda>shortToken.
     bindE (http w (MetaExchangeToken shortToken)) (\<lambda>longRes.
     bindE (get_prop longRes (js ''access_token'')) (\<lambda>longToken.
     bindE (get_prop longRes (js ''expires_in'')) (\<lambda>expires_in.
     bindE (meta_expires_at w expires_in) (\<lambda>expiresAt'.
     bindE (http w (MetaAccounts longToken)) (\<lambda>pagesRes.
     bindE (get_prop pagesRes (js ''data'')) (\<lambda>pagesData.
     bindE (get_prop (js_or pagesData (VArr [])) (js ''length'')) (\<lambda>pagesLength.
       if pagesLength = VNum 0 then
         bindE (get_prop parsedState (js ''user_id'')) (\<lambda>stateUser.
         save (db_now w)
           \<lparr>userId = user, platform' = VStr (js ''facebook''),
            platformUserId = js_or stateUser Null, accessToken = longToken, refreshToken = Null,
            meta = VObj [(js ''note'', VStr (js ''no-pages''))], expiresAt = expiresAt'\<rparr>
           (respond (Send 200 (js ''Connected to Facebook but no pages found.''))))
       else
         bindE (get_prop (js_or pagesData (VArr [])) (js ''0'')) (\<lambda>page.
         bindE (get_prop page (js ''access_token'')) (\<lambda>pageAccessToken.
         bindE (get_prop page (js ''id'')) (\<lambda>pageId.
         bindE (http w (MetaPage pageId pageAccessToken)) (\<lambda>pageInfo.
         bindE (get_prop pageInfo (js ''connected_instagram_account'')) (\<lambda>instagramAccount.
         bindE (if truthy instagramAccount then get_prop instagramAccount (js ''id'') else Inr Null)
           (\<lambda>instagramUserId.
         bindE (get_prop page (js ''name'')) (\<lambda>pageName.
         save (db_now w)
           \<lparr>userId = user, platform' = VStr (js ''facebook''), platformUserId = pageId,
            accessToken = pageAccessToken, refreshToken = Null,
            meta = VObj [(js ''page_name'', pageName)], expiresAt = Null\<rparr>
           ((if truthy instagramUserId then
               save (db_now w)
                 \<lparr>userId = user, platform' = VStr (js ''instagram''),
                  platformUserId = instagramUserId, accessToken = pageAccessToken,
                  refreshToken = Null, meta = VObj [(js ''linked_page'', pageId)],
                  expiresAt = Null\<rparr>
             else (\<lambda>k. k))
            (respond (Send 200
               (js ''<h3>Connected successfully!</h3><p>User: '' @ to_string user
                @ js ''. Instagram ID: '' @ to_string (js_or instagramUserId (VStr (js ''none'')))
                @ js ''.</p>''))))))))))))))))))))"

text \<open>
  \<open>GET /auth/meta/callback\<close>: the whole handler is inside the \<open>try\<close> block, the
  decoding of the state included.
\<close>

definition meta_callback :: "env \<Rightarrow> callback_query \<Rightarrow> response io" where
  "meta_callback w q =
     try_catch
       (bindE (parse_state (state q)) (\<lambda>parsedState.
        bindE (state_user parsedState) (\<lambda>user.
          if \<not> truthy (of_opt (code q)) then respond (Send 200 (js ''No code provided''))
          else meta_exchange w (of_opt (code q)) parsedState user)))
       (Send 500 (js ''Error during Facebook OAuth''))"

subsection \<open>routes/youtube.js, x.js, pinterest.js, linkedin.js\<close>

text \<open>\<^verbatim>\<open>Math.floor(Date.now()/1000) + Number(expires_in)\<close>\<close>

definition expires_at_of :: "env \<Rightarrow> jsval \<Rightarrow> exn + jsval" where
  "expires_at_of w expires_in = thenR (Number expires_in) (js_add (epoch_seconds w))"

text \<open>\<open>a && b\<close>, with \<open>b\<close> evaluated only when \<open>a\<close> is truthy.\<close>

definition js_and :: "jsval \<Rightarrow> (exn + jsval) \<Rightarrow> exn + jsval" where
  "js_and a b = (if truthy a then b else Inr a)"

definition youtube_exchange :: "env \<Rightarrow> jsval \<Rightarrow> jsval \<Rightarrow> response io" where
  "youtube_exchange w code' user =
     bindE (http w (YoutubeToken code')) (\<lambda>tokenRes.
     bindE (get_prop tokenRes (js ''access_token'')) (\<lambda>access_token'.
     bindE (get_prop tokenRes (js ''refresh_token'')) (\<lambda>refresh_token'.
     bindE (get_prop tokenRes (js ''expires_in'')) (\<lambda>expires_in.
     bindE (http w (YoutubeChannels access_token')) (\<lambda>me.
     bindE (get_prop me (js ''items'')) (\<lambda>items.
     bindE (js_and items (get_prop items (js ''0''))) (\<lambda>channel.
     bindE (opt_prop channel (js ''id'')) (\<lambda>channelId.
     bindE (opt_prop channel (js ''snippet'')) (\<lambda>snippet.
     bindE (expires_at_of w expires_in) (\<lambda>expiresAt'.
     save (db_now w)
       \<lparr>userId = user, platform' = VStr (js ''youtube''), platformUserId = channelId,
        accessToken = access_token', refreshToken = refresh_token',
        meta = VObj [(js ''snippet'', snippet)], expiresAt = expiresAt'\<rparr>
       (respond (Send 200
          (js ''<h3>YouTube connected!</h3><p>Channel: '' @ to_string channelId @ js ''</p>'')))))))))))))"

definition x_exchange :: "env \<Rightarrow> jsval \<Rightarrow> jsval \<Rightarrow> response io" where
  "x_exchange w code' user =
     bindE (http w (XToken code')) (\<lambda>tokenRes.
     bindE (get_prop tokenRes (js ''access_token'')) (\<lambda>access_token'.
     bindE (get_prop tokenRes (js ''refresh_token'')) (\<lambda>refresh_token'.
     bindE (get_prop tokenRes (js ''expires_in'')) (\<lambda>expires_in.
     bindE (http w (XMe access_token')) (\<lambda>userResp.
     bindE (get_prop userResp (js ''data'')) (\<lambda>userData.
     bindE (opt_prop userData (js ''id'')) (\<lambda>platformUserId'.
     bindE (expires_at_of w expires_in) (\<lambda>expiresAt'.
     save (db_now w)
       \<lparr>userId = user, platform' = VStr (js ''x''), platformUserId = platformUserId',
        accessToken = access_token', refreshToken = refresh_token', meta = Null,
        expiresAt = expiresAt'\<rparr>
       (respond (Send 200 (js ''<h3>X connected!</h3>'')))))))))))"

definition pinterest_exchange :: "env \<Rightarrow> jsval \<Rightarrow> jsval \<Rightarrow> response io" where
  "pinterest_exchange w code' user =
     bindE (http w (PinterestToken code')) (\<lambda>tokenRes.
     bindE (get_prop tokenRes (js ''access_token'')) (\<lambda>access_token'.
     bindE (get_prop tokenRes (js ''refresh_token'')) (\<lambda>refresh_token'.
     bindE (get_prop tokenRes (js ''expires_in'')) (\<lambda>expires_in.
     bindE (http w (PinterestAccount access_token')) (\<lambda>me.
     bindE (opt_prop me (js ''id'')) (\<lambda>platformUserId'.
     bindE (expires_at_of w expires_in) (\<lambda>expiresAt'.
     save (db_now w)
       \<lparr>userId = user, platform' = VStr (js ''pinterest''), platformUserId = platformUserId',
        accessToken = access_token', refreshToken = refresh_token', meta = me,
        expiresAt = expiresAt'\<rparr>
       (respond (Send 200 (js ''<h3>Pinterest connected!</h3>''))))))))))"

definition linkedin_exchange :: "env \<Rightarrow> jsval \<Rightarrow> jsval \<Rightarrow> response io" where
  "linkedin_exchange w code' user =
     bindE (http w (LinkedinToken code')) (\<lambda>tokenRes.
     bindE (get_prop tokenRes (js ''access_token'')) (\<lambda>access_token'.
     bindE (get_prop tokenRes (js ''expires_in'')) (\<lambda>expires_in.
     bindE (http w (LinkedinMe access_token')) (\<lambda>profile.
     bindE (get_prop profile (js ''id'')) (\<lambda>platformUserId'.
     bindE (expires_at_of w expires_in) (\<lambda>expiresAt'.
     save (db_now w)
       \<lparr>userId = user, platform' = VStr (js ''linkedin''), platformUserId = platformUserId',
        accessToken = access_token', refreshToken = Null, meta = profile,
        expiresAt = expiresAt'\<rparr>
       (respond (Send 200 (js ''<h3>LinkedIn connected!</h3>'')))))))))"

text \<open>
  The four other callbacks share one shape: the state is decoded and the code checked
  before the \<open>try\<close> block, which holds the exchange only.
\<close>

definition other_callback ::
  "jsstring \<Rightarrow> (jsval \<Rightarrow> jsval \<Rightarrow> response io) \<Rightarrow> jsstring \<Rightarrow> callback_query \<Rightarrow> response io" where
  "other_callback no_code exchange failure q =
     bindE (parse_state (state q)) (\<lambda>parsedState.
     bindE (state_user parsedState) (\<lambda>user.
       if \<not> truthy (of_opt (code q)) then respond (Send 200 no_code)
       else try_catch (exchange (of_opt (code q)) user) (Send 500 failure)))"

definition youtube_callback :: "env \<Rightarrow> callback_query \<Rightarrow> response io" where
  "youtube_callback w =
     other_callback (js ''No code provided'') (youtube_exchange w) (js ''Error handling YouTube OAuth'')"

definition x_callback :: "env \<Rightarrow> callback_query \<Rightarrow> response io" where
  "x_callback w = other_callback (js ''No code'') (x_exchange w) (js ''Error with X OAuth'')"

definition pinterest_callback :: "env \<Rightarrow> callback_query \<Rightarrow> response io" where
  "pinterest_callback w =
     other_callback (js ''No code'') (pinterest_exchange w) (js ''Pinterest OAuth Error'')"

definition linkedin_callback :: "env \<Rightarrow> callback_query \<Rightarrow> response io" where
  "linkedin_callback w =
     other_callback (js ''No code'') (linkedin_exchange w) (js ''LinkedIn OAuth Error'')"

text \<open>\<open>GET /auth/<provider>/callback\<close>, as \<open>server.js\<close> mounts the five routers.\<close>

fun callback :: "provider \<Rightarrow> env \<Rightarrow> callback_query \<Rightarrow> response io" where
  "callback PMeta = meta_callback"
| "callback PYouTube = youtube_callback"
| "callback PX = x_callback"
| "callback PPinterest = pinterest_callback"
| "callback PLinkedIn = linkedin_callback"

text \<open>
  A sequence of \<open>saveAccount\<close> calls, each with the reading of the database clock at
  its time. A call that throws has written nothing, and the next call finds the table as
  it was. Where the model does not say what a call does, it does not say what the table
  is after the sequence (\<open>None\<close>).
\<close>

fun after_saves :: "db \<Rightarrow> (int \<times> account_args) list \<Rightarrow> db option" where
  "after_saves d [] = Some d"
| "after_saves d ((now, a) # cs) =
     (case saveAccount d now a of
        Inl e \<Rightarrow> if e = Unmodelled then None else after_saves d cs
      | Inr d' \<Rightarrow> after_saves d' cs)"

text \<open>The two calls used as a running example: the same user and platform, new tokens.\<close>

definition first_save :: account_args where
  "first_save =
     \<lparr>userId = VStr (js ''u1''), platform' = VStr (js ''youtube''),
      platformUserId = VStr (js ''channel-1''), accessToken = VStr (js ''token-1''),
      refreshToken = VStr (js ''refresh-1''), meta = Null, expiresAt = VNum 1700003600\<rparr>"

definition second_save :: account_args where
  "second_save =
     \<lparr>userId = VStr (js ''u1''), platform' = VStr (js ''youtube''),
      platformUserId = VStr (js ''channel-2''), accessToken = VStr (js ''token-2''),
      refreshToken = VStr (js ''refresh-2''), meta = Null, expiresAt = VNum 1700090000\<rparr>"

text \<open>
  A database whose table has the uniqueness constraint on \<open>(user_id, platform)\<close>, with
  two records of user \<open>u1\<close>.
\<close>

definition example_row :: "int \<Rightarrow> string \<Rightarrow> string \<Rightarrow> row" where
  "example_row i p t =
     \<lparr>row_id = i, user_id = SText (js ''u1''), platform = SText (js p),
      platform_user_id = SText (js ''id-1''), access_token = SText (js t),
      refresh_token = SNull, meta_json = SNull, expires_at = SNull, created_at = SInt 1700000000\<rparr>"

definition example_db :: db where
  "example_db =
     \<lparr>uniques = [[''id''], [''user_id'', ''platform'']],
      rows = [example_row 1 ''facebook'' ''fb-token'', example_row 2 ''youtube'' ''yt-token''],
      seq = 2\<rparr>"




text \<open>The text a callback answers when the request has no code.\<close>

definition no_code_text :: "provider \<Rightarrow> jsstring" where
  "no_code_text p = (if p = PMeta \<or> p = PYouTube then js ''No code provided'' else js ''No code'')"

text \<open>The text a callback answers with status 500 when its \<open>try\<close> block catches an exception.\<close>

definition failure_text :: "provider \<Rightarrow> jsstring" where
  "failure_text p =
     (case p of
        PMeta \<Rightarrow> js ''Error during Facebook OAuth''
      | PYouTube \<Rightarrow> js ''Error handling YouTube OAuth''
      | PX \<Rightarrow> js ''Error with X OAuth''
      | PPinterest \<Rightarrow> js ''Pinterest OAuth Error''
      | PLinkedIn \<Rightarrow> js ''LinkedIn OAuth Error'')"

text \<open>The rows of a user and platform.\<close>

definition has_key :: "jsstring \<Rightarrow> jsstring \<Rightarrow> row \<Rightarrow> bool" where
  "has_key u p r = (user_id r = SText u \<and> platform r = SText p)"

text \<open>The platform under which a provider's callback stores its main record.\<close>

definition platform_name :: "provider \<Rightarrow> jsstring" where
  "platform_name p =
     (case p of
        PMeta \<Rightarrow> js ''facebook''
      | PYouTube \<Rightarrow> js ''youtube''
      | PX \<Rightarrow> js ''x''
      | PPinterest \<Rightarrow> js ''pinterest''
      | PLinkedIn \<Rightarrow> js ''linkedin'')"

text \<open>The \<open>expires_in\<close> a provider reports in an exchange: the property of the token response the handler reads (for Meta, of the long-lived token response).\<close>

definition reported_expires_in :: "provider \<Rightarrow> env \<Rightarrow> jsval \<Rightarrow> exn + jsval" where
  "reported_expires_in p w c =
     (case p of
        PMeta \<Rightarrow>
          thenR (http w (MetaAccessToken c)) (\<lambda>tokenRes.
          thenR (get_prop tokenRes (js ''access_token'')) (\<lambda>shortToken.
          thenR (http w (MetaExchangeToken shortToken)) (\<lambda>longRes.
            get_prop longRes (js ''expires_in''))))
      | PYouTube \<Rightarrow> thenR (http w (YoutubeToken c)) (\<lambda>tokenRes. get_prop tokenRes (js ''expires_in''))
      | PX \<Rightarrow> thenR (http w (XToken c)) (\<lambda>tokenRes. get_prop tokenRes (js ''expires_in''))
      | PPinterest \<Rightarrow> thenR (http w (PinterestToken c)) (\<lambda>tokenRes. get_prop tokenRes (js ''expires_in''))
      | PLinkedIn \<Rightarrow> thenR (http w (LinkedinToken c)) (\<lambda>tokenRes. get_prop tokenRes (js ''expires_in'')))"

text \<open>The two answers of a completed Meta callback.\<close>

definition no_pages_text :: jsstring where
  "no_pages_text = js ''Connected to Facebook but no pages found.''"

definition connected_text :: "jsstring \<Rightarrow> jsstring \<Rightarrow> jsstring" where
  "connected_text u ig =
     js ''<h3>Connected successfully!</h3><p>User: '' @ u @ js ''. Instagram ID: '' @ ig @ js ''.</p>''"

text \<open>Example worlds. The providers answer every request of the Meta and YouTube exchanges; the Meta user has no page, or one page \<open>PAGE1\<close> linked to the Instagram account \<open>IG123\<close>.\<close>

definition example_http :: "jsval \<Rightarrow> jsval \<Rightarrow> outbound \<Rightarrow> exn + jsval" where
  "example_http pages pageInfo r =
     (case r of
        MetaAccessToken c \<Rightarrow> Inr (VObj [(js ''access_token'', VStr (js ''short-token''))])
      | MetaExchangeToken t \<Rightarrow>
          Inr (VObj [(js ''access_token'', VStr (js ''long-token'')), (js ''expires_in'', VNum 5184000)])
      | MetaAccounts t \<Rightarrow> Inr (VObj [(js ''data'', pages)])
      | MetaPage i t \<Rightarrow> Inr pageInfo
      | YoutubeToken c \<Rightarrow>
          Inr (VObj [(js ''access_token'', VStr (js ''yt-access'')),
                     (js ''refresh_token'', VStr (js ''yt-refresh'')), (js ''expires_in'', VNum 3600)])
      | YoutubeChannels t \<Rightarrow> Inr (VObj [(js ''items'', VArr [VObj [(js ''id'', VStr (js ''UC1''))]])])
      | _ \<Rightarrow> Inl HttpError)"

definition no_pages_world :: env where
  "no_pages_world =
     \<lparr>http = example_http (VArr []) Undefined, date_now = 1700000000123, db_now = 1700000000\<rparr>"

definition example_page :: jsval where
  "example_page =
     VObj [(js ''access_token'', VStr (js ''page-token'')), (js ''id'', VStr (js ''PAGE1'')),
           (js ''name'', VStr (js ''My Page''))]"

definition instagram_world :: env where
  "instagram_world =
     \<lparr>http = example_http (VArr [example_page])
        (VObj [(js ''connected_instagram_account'', VObj [(js ''id'', VStr (js ''IG123''))]),
               (js ''id'', VStr (js ''PAGE1''))]),
      date_now = 1700000000123, db_now = 1700000000\<rparr>"

text \<open>An empty table that has the uniqueness constraint on \<open>(user_id, platform)\<close>.\<close>

definition keyed_db :: db where
  "keyed_db = \<lparr>uniques = [[''id''], [''user_id'', ''platform'']], rows = [], seq = 0\<rparr>"

text \<open>That table after the first and after the second example call of \<open>saveAccount\<close>.\<close>

definition after_first_save :: db where
  "after_first_save =
     keyed_db\<lparr>rows :=
       [\<lparr>row_id = 1, user_id = SText (js ''u1''), platform = SText (js ''youtube''),
         platform_user_id = SText (js ''channel-1''), access_token = SText (js ''token-1''),
         refresh_token = SText (js ''refresh-1''), meta_json = SNull,
         expires_at = SInt 1700003600, created_at = SInt 1700000000\<rparr>], seq := 1\<rparr>"

definition after_second_save :: db where
  "after_second_save =
     keyed_db\<lparr>rows :=
       [\<lparr>row_id = 1, user_id = SText (js ''u1''), platform = SText (js ''youtube''),
         platform_user_id = SText (js ''channel-2''), access_token = SText (js ''token-2''),
         refresh_token = SText (js ''refresh-2''), meta_json = SNull,
         expires_at = SInt 1700090000, created_at = SInt 1700000000\<rparr>], seq := 2\<rparr>"

text \<open>The state the start routes build for the user \<open>u1\<close>.\<close>

definition state_u1 :: jsstring where
  "state_u1 = js ''%7B%22user_id%22%3A%22u1%22%7D''"

text \<open>
  At most one record per \<open>(user_id, platform)\<close> pair: the pairs of the rows that have one
  (a \<open>NULL\<close> in either column is no pair) are distinct.
\<close>

definition pair_of :: "row \<Rightarrow> sqlval \<times> sqlval" where
  "pair_of r = (user_id r, platform r)"

definition has_pair :: "row \<Rightarrow> bool" where
  "has_pair r = (user_id r \<noteq> SNull \<and> platform r \<noteq> SNull)"

definition unique_pairs :: "row list \<Rightarrow> bool" where
  "unique_pairs rs = distinct (map pair_of (filter has_pair rs))"

text \<open>What \<open>JSON.stringify({ user_id })\<close> writes for a string \<open>u\<close>.\<close>

definition state_text :: "jsstring \<Rightarrow> jsstring" where
  "state_text u = 0x7B # 0x22 # js ''user_id'' @ 0x22 # 0x3A # 0x22 # quote_chars u @ [0x22, 0x7D]"

text \<open>A code unit that is not a surrogate.\<close>

definition plain :: "16 word \<Rightarrow> bool" where
  "plain c = (\<not> is_high c \<and> \<not> is_low c)"

section \<open>The state round trip\<close>

subsection \<open>Hexadecimal digits\<close>

lemma unat_of_nat16: "n < 65536 \<Longrightarrow> unat (of_nat n :: 16 word) = n"
  by (simp add: unat_of_nat)

lemma unat_hex_lower: "n < 16 \<Longrightarrow> unat (hex_lower n) = (if n < 10 then 48 + n else 87 + n)"
  unfolding hex_lower_def by (subst unat_of_nat16) auto

lemma unat_hex_upper: "n < 16 \<Longrightarrow> unat (hex_upper n) = (if n < 10 then 48 + n else 55 + n)"
  unfolding hex_upper_def by (subst unat_of_nat16) auto

lemma hex_value_lower: "n < 16 \<Longrightarrow> hex_value (hex_lower n) = Some n"
  by (simp add: hex_value_def unat_hex_lower)

lemma hex_value_upper: "n < 16 \<Longrightarrow> hex_value (hex_upper n) = Some n"
  by (simp add: hex_value_def unat_hex_upper)

lemma unat16_bound: "unat (c :: 16 word) < 65536"
  using unsigned_less [of c, where 'a = nat] by simp

lemma nibbles: "4096 * ((n::nat) div 4096) + 256 * (n div 256 mod 16) + 16 * (n div 16 mod 16) + n mod 16 = n"
proof -
  have a: "n div 256 = n div 16 div 16" by (simp add: div_mult2_eq)
  have b: "n div 4096 = n div 16 div 16 div 16" by (simp add: div_mult2_eq)
  show ?thesis
    unfolding a b
    using div_mult_mod_eq [of n 16] div_mult_mod_eq [of "n div 16" 16] div_mult_mod_eq [of "n div 16 div 16" 16]
    by linarith
qed

lemma hex4_unicode_escape:
  "hex4 (hex_lower (unat c div 4096)) (hex_lower (unat c div 256 mod 16))
        (hex_lower (unat c div 16 mod 16)) (hex_lower (unat c mod 16)) = Some c"
proof -
  have b: "unat c < 65536" by (rule unat16_bound)
  then have d: "unat c div 4096 < 16" by simp
  have "hex4 (hex_lower (unat c div 4096)) (hex_lower (unat c div 256 mod 16))
        (hex_lower (unat c div 16 mod 16)) (hex_lower (unat c mod 16))
     = Some (of_nat (4096 * (unat c div 4096) + 256 * (unat c div 256 mod 16) + 16 * (unat c div 16 mod 16)
      + unat c mod 16))"
    unfolding hex4_def by (simp add: hex_value_lower d del: of_nat_add of_nat_mult)
  also have "\<dots> = Some c"
    by (simp only: nibbles) simp
  finally show ?thesis .
qed


subsection \<open>A quoted string parses back\<close>

lemma parse_unicode_escape:
  "parse_string_chars (unicode_escape c @ s) = map_option (\<lambda>(t, r). (c # t, r)) (parse_string_chars s)"
  by (simp add: unicode_escape_def hex4_unicode_escape)

lemma parse_quote_unit:
  "parse_string_chars (quote_unit c @ s) = map_option (\<lambda>(t, r). (c # t, r)) (parse_string_chars s)"
  by (simp add: quote_unit_def simple_escape_def parse_unicode_escape)

lemma parse_surrogate:
  "is_high c \<or> is_low c \<Longrightarrow>
   parse_string_chars (c # s) = map_option (\<lambda>(t, r). (c # t, r)) (parse_string_chars s)"
  by (auto simp: is_high_def is_low_def)

lemma parse_quote_chars:
  "parse_string_chars (quote_chars u @ 0x22 # r) = Some (u, r)"
proof (induction u rule: quote_chars.induct)
  case 1
  show ?case by simp
next
  case (2 c)
  show ?case
    by (simp add: parse_unicode_escape parse_quote_unit)
next
  case (3 c d cs)
  then show ?case
    by (simp add: parse_unicode_escape parse_quote_unit parse_surrogate
        del: parse_string_chars.simps)
qed

subsection \<open>The JSON text of a state\<close>

lemma quote_user_id: "quote_chars (js ''user_id'') = js ''user_id''"
  by (simp add: js_def quote_unit_def is_high_def is_low_def)

lemma stringify_state:
  "JSON_stringify (VObj [(js ''user_id'', VStr u)]) = Some (state_text u)"
  by (simp add: QuoteJSONString_def quote_user_id state_text_def) (simp add: js_def)

lemma array_index_user_id: "array_index (js ''user_id'') = None"
  by (simp add: array_index_def js_def is_digit_def)

lemma parse_value_state:
  "parse_value (Suc (Suc (Suc n))) (state_text u) = Inr (VObj [(js ''user_id'', VStr u)], [])"
  by (simp add: state_text_def js_def separator_after_def parse_key_def is_ws_def parse_quote_chars
      obj_define_def array_index_user_id [unfolded js_def, simplified])

lemma JSON_parse_state: "JSON_parse (state_text u) = Inr (VObj [(js ''user_id'', VStr u)])"
proof -
  have "2 \<le> length (state_text u)"
    by (simp add: state_text_def)
  then obtain n where "length (state_text u) = Suc (Suc n)"
    by (metis Suc_le_D numeral_2_eq_2 Suc_le_mono)
  then show ?thesis
    by (simp add: JSON_parse_def parse_value_state del: parse_value.simps)
qed

subsection \<open>Percent-encoded UTF-8 decodes back\<close>

lemma hex_octet_percent:
  "b < 256 \<Longrightarrow> hex_octet (hex_upper (b div 16) # hex_upper (b mod 16) # r) = Some (b, r)"
proof -
  assume b: "b < 256"
  then have "b div 16 < 16" by simp
  moreover have "16 * (b div 16) + b mod 16 = b" by simp
  ultimately show ?thesis
    by (simp add: hex_value_upper)
qed

lemma continuation_percent:
  "b < 256 \<Longrightarrow>
   continuation (Suc n) (percent b @ s) = map_option (\<lambda>(bs, r). (b # bs, r)) (continuation n s)"
  by (simp add: percent_def hex_octet_percent del: hex_octet.simps)

lemma decode_percent:
  "b < 256 \<Longrightarrow>
   decodeURIComponent (percent b @ s) =
     (if leading_ones b = 0 then thenR (decodeURIComponent s) (\<lambda>r. Inr (of_nat b # r))
      else if leading_ones b = 1 \<or> leading_ones b > 4 then Inl URIError
      else
        (case continuation (leading_ones b - 1) s of
           None \<Rightarrow> Inl URIError
         | Some (bs, rest') \<Rightarrow>
             (case utf8_decode b bs of
                None \<Rightarrow> Inl URIError
              | Some cp \<Rightarrow> thenR (decodeURIComponent rest') (\<lambda>r. Inr (utf16 cp @ r)))))"
  by (simp add: percent_def hex_octet_percent del: hex_octet.simps)

lemma decode_one:
  assumes "cp < 0x80"
  shows "decodeURIComponent (percent_encode cp @ s) = thenR (decodeURIComponent s) (\<lambda>r. Inr (utf16 cp @ r))"
  using assms
  by (simp add: percent_encode_def utf8_bytes_def decode_percent leading_ones_def utf16_def
      del: decodeURIComponent.simps)

lemma split64: "64 * ((n::nat) div 64) + n mod 64 = n"
  by simp

lemma decode_two:
  assumes "0x80 \<le> cp" "cp < 0x800"
  shows "decodeURIComponent (percent_encode cp @ s) = thenR (decodeURIComponent s) (\<lambda>r. Inr (utf16 cp @ r))"
proof -
  have d: "cp div 64 < 32" "cp mod 64 < 64" "2 \<le> cp div 64"
    using assms by simp_all
  have v: "utf8_decode (0xC0 + cp div 64) [0x80 + cp mod 64] = Some cp"
    using assms d by (simp add: utf8_decode_def Let_def)
  have b0: "192 + cp div 64 < 256" "leading_ones (192 + cp div 64) = 2"
    using d by (simp_all add: leading_ones_def)
  have b1: "128 + cp mod 64 < 256" using d by simp
  have c: "continuation (Suc 0) (percent (128 + cp mod 64) @ s) = Some ([128 + cp mod 64], s)"
    by (simp add: continuation_percent [OF b1])
  show ?thesis
    using assms v c
    by (simp add: percent_encode_def utf8_bytes_def decode_percent [OF b0(1)] b0(2)
        del: decodeURIComponent.simps continuation.simps)
qed

lemma split3: "(n::nat) div 4096 * 4096 + n div 64 mod 64 * 64 + n mod 64 = n"
proof -
  have a: "n div 4096 = n div 64 div 64" by (simp add: div_mult2_eq)
  show ?thesis
    unfolding a
    using div_mult_mod_eq [of n 64] div_mult_mod_eq [of "n div 64" 64]
    by linarith
qed

lemma split4:
  "(n::nat) div 262144 * 262144 + n div 4096 mod 64 * 4096 + n div 64 mod 64 * 64 + n mod 64 = n"
proof -
  have a: "n div 4096 = n div 64 div 64" by (simp add: div_mult2_eq)
  have b: "n div 262144 = n div 64 div 64 div 64" by (simp add: div_mult2_eq)
  show ?thesis
    unfolding a b
    using div_mult_mod_eq [of n 64] div_mult_mod_eq [of "n div 64" 64]
      div_mult_mod_eq [of "n div 64 div 64" 64]
    by linarith
qed

lemma decode_three:
  assumes "0x800 \<le> cp" "cp < 0x10000" "\<not> (0xD800 \<le> cp \<and> cp \<le> 0xDFFF)"
  shows "decodeURIComponent (percent_encode cp @ s) = thenR (decodeURIComponent s) (\<lambda>r. Inr (utf16 cp @ r))"
proof -
  have d: "cp div 4096 < 16" "cp div 64 mod 64 < 64" "cp mod 64 < 64"
    using assms by simp_all
  have v: "utf8_decode (0xE0 + cp div 4096) [0x80 + cp div 64 mod 64, 0x80 + cp mod 64] = Some cp"
    using assms d by (simp add: utf8_decode_def Let_def split3)
  have b0: "224 + cp div 4096 < 256" "leading_ones (224 + cp div 4096) = 3"
    using d by (simp_all add: leading_ones_def)
  have b1: "128 + cp div 64 mod 64 < 256" using d by simp
  have b2: "128 + cp mod 64 < 256" using d by simp
  have c: "continuation 2 (percent (128 + cp div 64 mod 64) @ percent (128 + cp mod 64) @ s)
      = Some ([128 + cp div 64 mod 64, 128 + cp mod 64], s)"
    by (simp add: numeral_2_eq_2 continuation_percent [OF b1] continuation_percent [OF b2]
        del: continuation.simps(3))
  show ?thesis
    using assms v c
    by (simp add: percent_encode_def utf8_bytes_def decode_percent [OF b0(1)] b0(2)
        del: decodeURIComponent.simps continuation.simps)
qed

lemma decode_four:
  assumes "0x10000 \<le> cp" "cp < 0x110000"
  shows "decodeURIComponent (percent_encode cp @ s) = thenR (decodeURIComponent s) (\<lambda>r. Inr (utf16 cp @ r))"
proof -
  have d: "cp div 262144 < 5" "cp div 4096 mod 64 < 64" "cp div 64 mod 64 < 64" "cp mod 64 < 64"
    using assms by simp_all
  have v: "utf8_decode (0xF0 + cp div 262144)
      [0x80 + cp div 4096 mod 64, 0x80 + cp div 64 mod 64, 0x80 + cp mod 64] = Some cp"
    using assms d by (simp add: utf8_decode_def Let_def split4)
  have b0: "240 + cp div 262144 < 256" "leading_ones (240 + cp div 262144) = 4"
    using d by (simp_all add: leading_ones_def)
  have b1: "128 + cp div 4096 mod 64 < 256" using d by simp
  have b2: "128 + cp div 64 mod 64 < 256" using d by simp
  have b3: "128 + cp mod 64 < 256" using d by simp
  have c: "continuation 3
      (percent (128 + cp div 4096 mod 64) @ percent (128 + cp div 64 mod 64) @ percent (128 + cp mod 64) @ s)
      = Some ([128 + cp div 4096 mod 64, 128 + cp div 64 mod 64, 128 + cp mod 64], s)"
    by (simp add: numeral_3_eq_3 continuation_percent [OF b1] continuation_percent [OF b2]
        continuation_percent [OF b3] del: continuation.simps(3))
  show ?thesis
    using assms v c
    by (simp add: percent_encode_def utf8_bytes_def decode_percent [OF b0(1)] b0(2)
        del: decodeURIComponent.simps continuation.simps)
qed

lemma decode_code_point:
  assumes "cp < 0x110000" "\<not> (0xD800 \<le> cp \<and> cp \<le> 0xDFFF)"
  shows "decodeURIComponent (percent_encode cp @ s) = thenR (decodeURIComponent s) (\<lambda>r. Inr (utf16 cp @ r))"
proof -
  consider "cp < 0x80" | "0x80 \<le> cp" "cp < 0x800" | "0x800 \<le> cp" "cp < 0x10000" | "0x10000 \<le> cp"
    by linarith
  then show ?thesis
  proof cases
    case 1 then show ?thesis by (rule decode_one)
  next
    case 2 then show ?thesis by (rule decode_two)
  next
    case 3 with assms show ?thesis by (intro decode_three) auto
  next
    case 4 with assms show ?thesis by (intro decode_four) auto
  qed
qed

lemma unescaped_not_percent: "uri_unescaped c \<Longrightarrow> c \<noteq> 0x25"
  by (auto simp: uri_unescaped_def js_def)

lemma unescaped_not_surrogate: "uri_unescaped c \<Longrightarrow> \<not> is_high c \<and> \<not> is_low c"
  by (auto simp: uri_unescaped_def js_def is_high_def is_low_def)

lemma utf16_unit: "utf16 (unat (c :: 16 word)) = [c]"
  using unat16_bound [of c] by (simp add: utf16_def)

lemma pair_code_point_range:
  assumes "is_high c" "is_low d"
  shows "0x10000 \<le> pair_code_point c d" "pair_code_point c d < 0x110000"
  using assms unfolding pair_code_point_def is_high_def is_low_def by linarith+

lemma utf16_pair:
  assumes "is_high c" "is_low d"
  shows "utf16 (pair_code_point c d) = [c, d]"
proof -
  let ?h = "unat c - 0xD800" and ?l = "unat d - 0xDC00"
  have h: "?h < 1024" "0xD800 + ?h = unat c" and l: "?l < 1024" "0xDC00 + ?l = unat d"
    using assms unfolding is_high_def is_low_def by linarith+
  have "pair_code_point c d - 0x10000 = ?h * 1024 + ?l"
    by (simp add: pair_code_point_def)
  moreover have "(?h * 1024 + ?l) div 1024 = ?h" "(?h * 1024 + ?l) mod 1024 = ?l"
    using l(1) by simp_all
  ultimately have "utf16 (pair_code_point c d) = [of_nat (0xD800 + ?h), of_nat (0xDC00 + ?l)]"
    using pair_code_point_range [OF assms] by (simp add: utf16_def del: of_nat_add)
  then show ?thesis
    by (simp only: h l) simp
qed

lemma decode_encode:
  "encodeURIComponent s = Inr e \<Longrightarrow> decodeURIComponent e = Inr s"
proof (induction s arbitrary: e rule: encodeURIComponent.induct)
  case 1
  then show ?case by simp
next
  case (2 c)
  show ?case
  proof (cases "uri_unescaped c")
    case True
    with 2 show ?thesis by (auto simp: unescaped_not_percent)
  next
    case False
    with 2 have ns: "\<not> is_high c" "\<not> is_low c" and e: "e = percent_encode (unat c) @ []"
      by (auto split: if_splits)
    have "unat c < 0x110000" "\<not> (0xD800 \<le> unat c \<and> unat c \<le> 0xDFFF)"
      using unat16_bound [of c] ns by (auto simp: is_high_def is_low_def)
    then show ?thesis
      unfolding e by (subst decode_code_point) (simp_all add: utf16_unit)
  qed
next
  case (3 c d cs)
  show ?case
  proof (cases "uri_unescaped c")
    case True
    with 3 show ?thesis
      by (cases "encodeURIComponent (d # cs)") (auto simp: unescaped_not_percent)
  next
    case False
    note nu = this
    show ?thesis
    proof (cases "is_high c")
      case True
      with nu 3(4) have lo: "is_low d" and nl: "\<not> is_low c"
        by (auto split: if_splits)
      from nu True lo nl 3(4) obtain r where r: "encodeURIComponent cs = Inr r"
        and e: "e = percent_encode (pair_code_point c d) @ r"
        by (cases "encodeURIComponent cs") auto
      have "decodeURIComponent r = Inr cs"
        using 3(2) nu True lo nl r by simp
      then show ?thesis
        unfolding e using pair_code_point_range [OF True lo]
        by (subst decode_code_point) (simp_all add: utf16_pair [OF True lo])
    next
      case False
      with nu 3(4) have nl: "\<not> is_low c"
        by (auto split: if_splits)
      from nu False nl 3(4) obtain r where r: "encodeURIComponent (d # cs) = Inr r"
        and e: "e = percent_encode (unat c) @ r"
        by (cases "encodeURIComponent (d # cs)") auto
      have ih: "decodeURIComponent r = Inr (d # cs)"
        using 3(3) nu False nl r by simp
      have "unat c < 0x110000" "\<not> (0xD800 \<le> unat c \<and> unat c \<le> 0xDFFF)"
        using unat16_bound [of c] False nl by (auto simp: is_high_def is_low_def)
      then show ?thesis
        unfolding e by (subst decode_code_point) (simp_all add: utf16_unit ih)
    qed
  qed
qed

subsection \<open>Encoding a JSON text does not throw\<close>

lemma encode_plain_cons:
  "plain c \<Longrightarrow>
   encodeURIComponent (c # s) =
     thenR (encodeURIComponent s)
       (\<lambda>r. Inr ((if uri_unescaped c then [c] else percent_encode (unat c)) @ r))"
  by (cases s) (auto simp: plain_def)

lemma encode_plain_append:
  "list_all plain xs \<Longrightarrow> encodeURIComponent s = Inr r \<Longrightarrow> \<exists>r'. encodeURIComponent (xs @ s) = Inr r'"
  by (induction xs) (auto simp: encode_plain_cons simp del: encodeURIComponent.simps)

lemma plain_hex_lower: "n < 16 \<Longrightarrow> plain (hex_lower n)"
  by (simp add: plain_def is_high_def is_low_def unat_hex_lower)

lemma plain_unicode_escape: "list_all plain (unicode_escape c)"
proof -
  have "unat c div 4096 < 16"
    using unat16_bound [of c] by simp
  then show ?thesis
    by (simp add: unicode_escape_def plain_hex_lower) (simp add: plain_def is_high_def is_low_def)
qed

lemma plain_quote_unit: "plain c \<Longrightarrow> list_all plain (quote_unit c)"
  using plain_unicode_escape [of c]
  by (simp add: quote_unit_def) (simp add: plain_def is_high_def is_low_def)

lemma encode_quote_chars:
  "encodeURIComponent s = Inr r \<Longrightarrow> \<exists>r'. encodeURIComponent (quote_chars u @ s) = Inr r'"
proof (induction u arbitrary: s r rule: quote_chars.induct)
  case 1
  then show ?case by simp
next
  case (2 c)
  then show ?case
    using encode_plain_append [OF plain_unicode_escape] encode_plain_append [OF plain_quote_unit]
    by (auto simp: plain_def simp del: encodeURIComponent.simps)
next
  case (3 c d cs)
  show ?case
  proof (cases "is_high c \<and> is_low d")
    case True
    then have "\<not> is_low c" "\<not> uri_unescaped c"
      using unescaped_not_surrogate [of c] by (auto simp: is_high_def is_low_def)
    moreover obtain r' where "encodeURIComponent (quote_chars cs @ s) = Inr r'"
      using 3(1) [of s r] True 3(5) by auto
    ultimately show ?thesis
      using True by simp
  next
    case False
    then obtain r' where r': "encodeURIComponent (quote_chars (d # cs) @ s) = Inr r'"
      using 3(2-4) [of s r] 3(5) by blast
    show ?thesis
      using False encode_plain_append [OF plain_unicode_escape r']
        encode_plain_append [OF plain_quote_unit r']
      by (auto simp: plain_def simp del: encodeURIComponent.simps quote_chars.simps(3)
          simp add: quote_chars.simps(3) [of c d cs])
  qed
qed

lemma encode_state_text: "\<exists>e. encodeURIComponent (state_text u) = Inr e \<and> e \<noteq> []"
proof -
  have "encodeURIComponent [0x22, 0x7D] = Inr (percent_encode 0x22 @ percent_encode 0x7D)"
    by (simp add: uri_unescaped_def js_def is_high_def is_low_def)
  then obtain r where r: "encodeURIComponent (quote_chars u @ [0x22, 0x7D]) = Inr r"
    using encode_quote_chars by blast
  have p: "list_all plain (0x7B # 0x22 # js ''user_id'' @ [0x22, 0x3A, 0x22])"
    by (simp add: js_def plain_def is_high_def is_low_def)
  have "state_text u = (0x7B # 0x22 # js ''user_id'' @ [0x22, 0x3A, 0x22]) @ quote_chars u @ [0x22, 0x7D]"
    by (simp add: state_text_def)
  then obtain e where e: "encodeURIComponent (state_text u) = Inr e"
    using encode_plain_append [OF p r] by auto
  have "plain 0x7B" "\<not> uri_unescaped 0x7B"
    by (simp_all add: plain_def is_high_def is_low_def uri_unescaped_def js_def)
  then have "e \<noteq> []"
    using e by (cases "encodeURIComponent (tl (state_text u))")
      (auto simp: state_text_def encode_plain_cons percent_encode_def utf8_bytes_def percent_def
        simp del: encodeURIComponent.simps)
  with e show ?thesis by blast
qed

text \<open>
  C6. For every non-empty user identifier \<open>u\<close> (any sequence of UTF-16 code units), the
  start routes' encoding succeeds, and the callbacks' decoding of the resulting state
  recovers exactly \<open>u\<close>.
\<close>

theorem state_round_trip:
  "u \<noteq> [] \<Longrightarrow> \<exists>s. encode_state (VStr u) = Inr s \<and> decode_state (Some s) = Inr (VStr u)"
proof -
  assume u: "u \<noteq> []"
  obtain e where e: "encodeURIComponent (state_text u) = Inr e" and ne: "e \<noteq> []"
    using encode_state_text by blast
  have "decodeURIComponent e = Inr (state_text u)"
    using e by (rule decode_encode)
  then have "parse_state (Some e) = Inr (VObj [(js ''user_id'', VStr u)])"
    using ne by (simp add: JSON_parse_state)
  moreover have "js ''user_id'' \<noteq> js ''__proto__''"
    by (simp add: js_def)
  ultimately have "decode_state (Some e) = Inr (VStr u)"
    using u by (simp add: decode_state_def state_user_def js_or_def)
  moreover have "encode_state (VStr u) = Inr e"
    using e by (simp add: encode_state_def stringify_state del: JSON_stringify.simps)
  ultimately show ?thesis by blast
qed

text \<open>
  An identifier with a space, accented and non-BMP characters, a line feed, a lone
  surrogate and a double quote.
\<close>

theorem state_round_trip_witness:
  "\<exists>s. encode_state (VStr (js ''u 1'' @ [0xE9, 0x20AC, 0xD83D, 0xDE00, 0x0A, 0xD800, 0x22])) = Inr s
     \<and> decode_state (Some s) = Inr (VStr (js ''u 1'' @ [0xE9, 0x20AC, 0xD83D, 0xDE00, 0x0A, 0xD800, 0x22]))"
  using state_round_trip [of "js ''u 1'' @ [0xE9, 0x20AC, 0xD83D, 0xDE00, 0x0A, 0xD800, 0x22]"]
  by simp

section \<open>Properties of the credential store\<close>

text \<open>A literal of the source has no surrogate, and is stored as it is.\<close>

lemma plain_small: "n < 256 \<Longrightarrow> plain (of_nat n)"
  by (simp add: plain_def is_high_def is_low_def unat_of_nat16)

lemma plain_js: "list_all plain (js s)"
proof -
  have "plain (of_nat (of_char c))" for c :: char
  proof -
    have "(of_char c :: nat) mod 256 = of_char c"
      by (rule of_char_mod_256)
    then have "(of_char c :: nat) < 256"
      by (metis mod_less_divisor zero_less_numeral)
    then show ?thesis
      by (rule plain_small)
  qed
  then show ?thesis
    by (simp add: js_def list_all_iff)
qed

lemma to_well_formed_plain: "list_all plain s \<Longrightarrow> to_well_formed s = s"
  by (induction s rule: to_well_formed.induct) (auto simp: plain_def)

lemma to_well_formed_js [simp]: "to_well_formed (js s) = js s"
  by (simp add: to_well_formed_plain plain_js)

lemma thenR_Inr: "thenR r f = Inr x \<longleftrightarrow> (\<exists>v. r = Inr v \<and> f v = Inr x)"
  by (cases r) simp_all

lemma conflict_target_declared:
  "\<not> conflict_target_ok social_accounts_schema [''user_id'', ''platform'']"
  by (simp add: conflict_target_ok_def social_accounts_schema_def)

lemma saveAccount_declared_schema:
  "uniques d = social_accounts_schema \<Longrightarrow> saveAccount d now a = Inl (SqliteError no_constraint_msg)"
  by (simp add: saveAccount_def conflict_target_declared)

lemma after_saves_declared_schema:
  "uniques d = social_accounts_schema \<Longrightarrow> after_saves d cs = Some d"
  by (induction cs) (auto simp: saveAccount_declared_schema)


text \<open>
  C2. After \<open>saveAccount\<close> is called twice with the same \<open>(user_id, platform)\<close> and
  different token values on a database created by this code, the table is as it was
  created and the pair has no record at all: neither call stored anything.
\<close>

theorem two_saves_leave_no_record:
  "after_saves (open_db None) [(1700000000, first_save), (1700086400, second_save)]
     = Some (open_db None)
   \<and> select_account (open_db None) (js ''u1'') (js ''youtube'') = None"
proof -
  have "uniques (open_db None) = social_accounts_schema"
    by simp
  then have "after_saves (open_db None) [(1700000000, first_save), (1700086400, second_save)]
      = Some (open_db None)"
    by (rule after_saves_declared_schema)
  then show ?thesis
    by (simp add: select_account_def)
qed

subsection \<open>The upsert on a table that has the constraint\<close>

text \<open>
  What the statement does where SQLite accepts it, on a table with
  \<open>UNIQUE(user_id, platform)\<close>. No code of this repository creates such a table.
\<close>

lemma same_key_text: "same_key (SText u) (SText p) = has_key u p"
  by (auto simp: same_key_def has_key_def fun_eq_iff)

lemma has_key_do_update [simp]: "has_key u p (do_update pu at rt mj ex r) = has_key u p r"
  by (simp add: has_key_def do_update_def)

lemma has_key_eq: "(\<lambda>r. user_id r = SText u \<and> platform r = SText p) = has_key u p"
  by (simp add: has_key_def fun_eq_iff)

lemma select_account_filter:
  "select_account d u p =
     (case filter (has_key (to_well_formed u) (to_well_formed p)) (rows d) of
        [] \<Rightarrow> None
      | r # rs \<Rightarrow> Some r)"
  by (simp add: select_account_def has_key_eq)

lemma filter_update_same:
  "filter (has_key u p) (map (\<lambda>r. if has_key u p r then do_update pu at rt mj ex r else r) xs)
     = map (do_update pu at rt mj ex) (filter (has_key u p) xs)"
  by (induction xs) auto

lemma filter_update_other:
  "(u, p) \<noteq> (u', p') \<Longrightarrow>
   filter (has_key u' p') (map (\<lambda>r. if has_key u p r then do_update pu at rt mj ex r else r) xs)
     = filter (has_key u' p') xs"
  by (induction xs) (auto simp: has_key_def do_update_def)

lemma list_ex_filter: "list_ex P xs \<Longrightarrow> \<exists>y ys. filter P xs = y # ys"
  by (induction xs) auto

lemma not_list_ex_filter: "\<not> list_ex P xs \<Longrightarrow> filter P xs = []"
  by (induction xs) auto

text \<open>After an upsert the record of the pair carries the bound values.\<close>

lemma upsert_select:
  "\<exists>r. select_account
          (upsert d now (SText (to_well_formed u)) (SText (to_well_formed p)) pu at rt mj ex) u p
        = Some r
     \<and> platform_user_id r = pu \<and> access_token r = at \<and> refresh_token r = rt
     \<and> meta_json r = mj \<and> expires_at r = ex"
proof (cases "list_ex (has_key (to_well_formed u) (to_well_formed p)) (rows d)")
  case True
  then obtain y ys where "filter (has_key (to_well_formed u) (to_well_formed p)) (rows d) = y # ys"
    using list_ex_filter by blast
  then show ?thesis
    using True
    by (simp add: upsert_def same_key_text select_account_filter filter_update_same do_update_def)
next
  case False
  then show ?thesis
    by (simp add: upsert_def same_key_text select_account_filter not_list_ex_filter has_key_def)
qed

text \<open>An upsert leaves the records of every other pair as they were.\<close>

lemma upsert_select_other:
  "(u, p) \<noteq> (to_well_formed u', to_well_formed p') \<Longrightarrow>
   select_account (upsert d now (SText u) (SText p) pu at rt mj ex) u' p' = select_account d u' p'"
proof (cases "list_ex (has_key u p) (rows d)")
  case True
  assume "(u, p) \<noteq> (to_well_formed u', to_well_formed p')"
  then show ?thesis
    using True
    by (simp add: upsert_def same_key_text select_account_filter filter_update_other)
next
  case False
  assume "(u, p) \<noteq> (to_well_formed u', to_well_formed p')"
  then have "\<not> has_key (to_well_formed u') (to_well_formed p')
      \<lparr>row_id = seq d + 1, user_id = SText u, platform = SText p, platform_user_id = pu,
       access_token = at, refresh_token = rt, meta_json = mj, expires_at = ex,
       created_at = SInt now\<rparr>"
    by (auto simp: has_key_def)
  then show ?thesis
    using False
    by (simp add: upsert_def same_key_text select_account_filter)
qed

lemma bind_text_Inr:
  "bind_text v = Inr x \<longleftrightarrow>
     ((v = Undefined \<or> v = Null \<or> v = VNaN) \<and> x = SNull)
     \<or> (\<exists>s. v = VStr s \<and> x = SText (to_well_formed s))"
  by (cases v) auto

text \<open>What a successful \<open>saveAccount\<close> did, for a string user and platform.\<close>

lemma saveAccount_Inr:
  assumes "saveAccount d now a = Inr d'" "userId a = VStr u" "platform' a = VStr p"
  shows "\<exists>pu at rt mj ex.
           bind_text (platformUserId a) = Inr pu \<and> bind_text (accessToken a) = Inr at
         \<and> bind_text (default_null (refreshToken a)) = Inr rt
         \<and> bind_text (meta_param (default_null (meta a))) = Inr mj
         \<and> bind_integer (default_null (expiresAt a)) = Inr ex
         \<and> d' = upsert d now (SText (to_well_formed u)) (SText (to_well_formed p)) pu at rt mj ex"
  using assms
  by (cases "bind_text (platformUserId a)"; cases "bind_text (accessToken a)";
      cases "bind_text (default_null (refreshToken a))";
      cases "bind_text (meta_param (default_null (meta a)))";
      cases "bind_integer (default_null (expiresAt a))")
     (auto simp: saveAccount_def split: if_splits)

lemma saveAccount_user_text:
  assumes "saveAccount d now a = Inr d'" "truthy (userId a)"
  shows "\<exists>u. userId a = VStr u"
  using assms
  by (cases "userId a") (auto simp: saveAccount_def split: if_splits)

lemma pair_of_do_update [simp]: "pair_of (do_update pu at rt mj ex r) = pair_of r"
  by (simp add: pair_of_def do_update_def)

lemma has_pair_do_update [simp]: "has_pair (do_update pu at rt mj ex r) = has_pair r"
  by (simp add: has_pair_def do_update_def)

lemma pairs_after_update:
  "map pair_of (filter has_pair (map (\<lambda>r. if P r then do_update pu at rt mj ex r else r) rs))
     = map pair_of (filter has_pair rs)"
  by (induction rs) auto

lemma no_same_key_pair:
  "\<not> list_ex (same_key u p) rs \<Longrightarrow> u \<noteq> SNull \<Longrightarrow> p \<noteq> SNull \<Longrightarrow>
   (u, p) \<notin> set (map pair_of (filter has_pair rs))"
  by (induction rs) (auto simp: same_key_def pair_of_def)

text \<open>
  The rows whose user and platform are both not \<open>NULL\<close> keep distinct pairs through an
  upsert, and so through every sequence of calls the model follows.
\<close>

lemma unique_pairs_upsert:
  "unique_pairs (rows d) \<Longrightarrow> unique_pairs (rows (upsert d now u p pu at rt mj ex))"
proof (cases "list_ex (same_key u p) (rows d)")
  case True
  assume "unique_pairs (rows d)"
  with True show ?thesis
    by (simp add: upsert_def unique_pairs_def pairs_after_update)
next
  case False
  assume "unique_pairs (rows d)"
  with False no_same_key_pair [OF False] show ?thesis
    by (auto simp: upsert_def unique_pairs_def has_pair_def pair_of_def)
qed

lemma unique_pairs_saveAccount:
  "saveAccount d now a = Inr d' \<Longrightarrow> unique_pairs (rows d) \<Longrightarrow> unique_pairs (rows d')"
  by (auto simp: saveAccount_def thenR_Inr unique_pairs_upsert split: if_splits)

lemma unique_pairs_after_saves:
  "unique_pairs (rows d) \<Longrightarrow> after_saves d cs = Some d' \<Longrightarrow> unique_pairs (rows d')"
proof (induction cs arbitrary: d)
  case Nil
  then show ?case by simp
next
  case (Cons c cs)
  obtain now a where c: "c = (now, a)" by (cases c)
  show ?case
  proof (cases "saveAccount d now a")
    case (Inl e)
    with c Cons show ?thesis by (simp split: if_splits)
  next
    case (Inr d1)
    with c Cons unique_pairs_saveAccount [OF Inr] show ?thesis by simp
  qed
qed

lemma list_ex_filter_iff: "list_ex P xs \<longleftrightarrow> filter P xs \<noteq> []"
  by (induction xs) auto

lemma filter_upsert:
  "filter (has_key u p) (rows (upsert d now (SText u) (SText p) pu at rt mj ex)) =
     (if filter (has_key u p) (rows d) = []
      then [\<lparr>row_id = seq d + 1, user_id = SText u, platform = SText p, platform_user_id = pu,
             access_token = at, refresh_token = rt, meta_json = mj, expires_at = ex,
             created_at = SInt now\<rparr>]
      else map (do_update pu at rt mj ex) (filter (has_key u p) (rows d)))"
  by (simp add: upsert_def same_key_text list_ex_filter_iff filter_update_same) (simp add: has_key_def)

lemma length_upsert:
  "length (rows (upsert d now (SText u) (SText p) pu at rt mj ex)) =
     (if filter (has_key u p) (rows d) = [] then Suc (length (rows d)) else length (rows d))"
  by (simp add: upsert_def same_key_text list_ex_filter_iff)

text \<open>
  A successful \<open>saveAccount\<close> for a pair that has a record inserts no row: the record keeps
  its \<open>id\<close>, user, platform and \<open>created_at\<close> and takes the five bound values.
\<close>

lemma saveAccount_replaces:
  assumes "saveAccount d now a = Inr d'" "userId a = VStr u" "platform' a = VStr p"
    "select_account d u p = Some r0"
  shows "length (rows d') = length (rows d)
    \<and> (\<exists>r. select_account d' u p = Some r \<and> row_id r = row_id r0
           \<and> user_id r = SText (to_well_formed u) \<and> platform r = SText (to_well_formed p)
           \<and> created_at r = created_at r0
           \<and> bind_text (platformUserId a) = Inr (platform_user_id r)
           \<and> bind_text (accessToken a) = Inr (access_token r)
           \<and> bind_text (default_null (refreshToken a)) = Inr (refresh_token r)
           \<and> bind_text (meta_param (default_null (meta a))) = Inr (meta_json r)
           \<and> bind_integer (default_null (expiresAt a)) = Inr (expires_at r))"
proof -
  obtain pu at rt mj ex where b: "bind_text (platformUserId a) = Inr pu"
      "bind_text (accessToken a) = Inr at" "bind_text (default_null (refreshToken a)) = Inr rt"
      "bind_text (meta_param (default_null (meta a))) = Inr mj"
      "bind_integer (default_null (expiresAt a)) = Inr ex"
    and d': "d' = upsert d now (SText (to_well_formed u)) (SText (to_well_formed p)) pu at rt mj ex"
    using saveAccount_Inr [OF assms(1-3)] by blast
  obtain rs where f: "filter (has_key (to_well_formed u) (to_well_formed p)) (rows d) = r0 # rs"
    using assms(4) by (auto simp: select_account_filter split: list.splits)
  then have k: "has_key (to_well_formed u) (to_well_formed p) r0"
    by (metis filter_eq_Cons_iff)
  show ?thesis
    using b f k unfolding d'
    by (simp add: length_upsert select_account_filter filter_upsert)
       (simp add: do_update_def has_key_def)
qed

text \<open>
  On a table where \<open>saveAccount\<close> succeeds, two calls for a pair without a record leave
  exactly one record of the pair: the values of the second call, the \<open>created_at\<close> of
  the first.
\<close>

lemma two_saves_where_the_statement_is_accepted:
  assumes "saveAccount d t1 a1 = Inr d1" "saveAccount d1 t2 a2 = Inr d2"
    and "userId a1 = VStr u" "platform' a1 = VStr p" "userId a2 = VStr u" "platform' a2 = VStr p"
    and "select_account d u p = None"
  shows "\<exists>r. filter (has_key (to_well_formed u) (to_well_formed p)) (rows d2) = [r]
           \<and> user_id r = SText (to_well_formed u) \<and> platform r = SText (to_well_formed p)
           \<and> created_at r = SInt t1
           \<and> bind_text (platformUserId a2) = Inr (platform_user_id r)
           \<and> bind_text (accessToken a2) = Inr (access_token r)
           \<and> bind_text (default_null (refreshToken a2)) = Inr (refresh_token r)
           \<and> bind_text (meta_param (default_null (meta a2))) = Inr (meta_json r)
           \<and> bind_integer (default_null (expiresAt a2)) = Inr (expires_at r)"
proof -
  obtain pu at rt mj ex where
    d1: "d1 = upsert d t1 (SText (to_well_formed u)) (SText (to_well_formed p)) pu at rt mj ex"
    using saveAccount_Inr [OF assms(1,3,4)] by blast
  obtain pu' at' rt' mj' ex' where b: "bind_text (platformUserId a2) = Inr pu'"
      "bind_text (accessToken a2) = Inr at'" "bind_text (default_null (refreshToken a2)) = Inr rt'"
      "bind_text (meta_param (default_null (meta a2))) = Inr mj'"
      "bind_integer (default_null (expiresAt a2)) = Inr ex'"
    and d2: "d2 = upsert d1 t2 (SText (to_well_formed u)) (SText (to_well_formed p)) pu' at' rt' mj' ex'"
    using saveAccount_Inr [OF assms(2,5,6)] by blast
  have e: "filter (has_key (to_well_formed u) (to_well_formed p)) (rows d) = []"
    using assms(7) by (auto simp: select_account_filter split: list.splits)
  show ?thesis
    unfolding d2 d1 using b e
    by (simp add: filter_upsert) (simp add: do_update_def)
qed

text \<open>
  On a table with the constraint the two example calls leave one row, with the values of
  the second call and the \<open>created_at\<close> of the first.
\<close>

lemma two_example_saves_on_keyed_table:
  "saveAccount keyed_db 1700000000 first_save = Inr after_first_save"
  "saveAccount after_first_save 1700086400 second_save = Inr after_second_save"
  by (simp_all add: saveAccount_def keyed_db_def first_save_def second_save_def
      after_first_save_def after_second_save_def
      conflict_target_ok_def modelled_schema_def default_null_def meta_param_def upsert_def
      same_key_def do_update_def is_high_def is_low_def js_def)

text \<open>
  The constraint does not reach a \<open>NULL\<close> user: SQLite takes two \<open>NULL\<close>s for distinct, so
  two calls without a user identifier leave two rows of the same platform.
\<close>

lemma two_saves_without_user_leave_two_rows:
  "map_option (\<lambda>d. map (\<lambda>r. (row_id r, user_id r, platform r, access_token r)) (rows d))
     (after_saves keyed_db
        [(1700000000, first_save\<lparr>userId := Undefined\<rparr>),
         (1700086400, second_save\<lparr>userId := Undefined\<rparr>)])
   = Some [(1, SNull, SText (js ''youtube''), SText (js ''token-1'')),
           (2, SNull, SText (js ''youtube''), SText (js ''token-2''))]"
  by (simp add: saveAccount_def keyed_db_def first_save_def second_save_def
      conflict_target_ok_def modelled_schema_def default_null_def meta_param_def upsert_def
      same_key_def do_update_def is_high_def is_low_def js_def)

section \<open>Properties of the credential endpoint\<close>

text \<open>
  C5. A request whose presented secret (the Authorization header with the first
  \<open>Bearer \<close> removed) is missing or differs from the configured service token is
  answered 401 with the body \<open>{"error": "Unauthorized"}\<close>, whatever the user and whatever
  the table holds: the answer carries no credential data.
\<close>

theorem credentials_unauthorized:
  "presented_secret authorization = None \<or> presented_secret authorization \<noteq> service_token \<Longrightarrow>
   credentials service_token d authorization user =
     Inr (SendJson 401 (VObj [(js ''error'', VStr (js ''Unauthorized''))]))"
  by (cases "presented_secret authorization"; cases service_token)
     (auto simp: credentials_def unauthorized_def)

lemma select_user_example:
  "select_user example_db (js ''u1'')
     = [example_row 1 ''facebook'' ''fb-token'', example_row 2 ''youtube'' ''yt-token'']"
  by (simp add: select_user_def example_db_def index_order_def)
     (simp add: example_row_def js_def is_high_def is_low_def utf8_bytes_def)

theorem credentials_unauthorized_witness:
  "select_user example_db (js ''u1'') \<noteq> []
   \<and> presented_secret (Some (js ''Bearer wrong'')) \<noteq> Some (js ''s3cret'')
   \<and> credentials (Some (js ''s3cret'')) example_db (Some (js ''Bearer wrong'')) (js ''u1'') =
       Inr (SendJson 401 (VObj [(js ''error'', VStr (js ''Unauthorized''))]))
   \<and> credentials (Some (js ''s3cret'')) example_db None (js ''u1'') =
       Inr (SendJson 401 (VObj [(js ''error'', VStr (js ''Unauthorized''))]))"
proof -
  have a: "presented_secret (Some (js ''Bearer wrong'')) \<noteq> Some (js ''s3cret'')"
    by (simp add: presented_secret_def js_def)
  have b: "select_user example_db (js ''u1'') \<noteq> []"
    by (simp add: select_user_example)
  show ?thesis
    using a b
      credentials_unauthorized [of "Some (js ''Bearer wrong'')" "Some (js ''s3cret'')" example_db "js ''u1''"]
      credentials_unauthorized [of None "Some (js ''s3cret'')" example_db "js ''u1''"]
    by (simp add: presented_secret_def)
qed


















section \<open>Properties of the callbacks\<close>

subsection \<open>The state and the code\<close>

lemma decode_state_Inr:
  "decode_state st = Inr u \<longleftrightarrow> (\<exists>ps. parse_state st = Inr ps \<and> state_user ps = Inr u)"
  by (cases "parse_state st") (simp_all add: decode_state_def)

lemma decode_state_Inl:
  "decode_state st = Inl e \<longleftrightarrow>
     (parse_state st = Inl e \<or> (\<exists>ps. parse_state st = Inr ps \<and> state_user ps = Inl e))"
  by (cases "parse_state st") (simp_all add: decode_state_def)

lemma other_callback_undecodable:
  "decode_state (state q) = Inl e \<Longrightarrow> other_callback t x f q d = (Inl e, d)"
  by (auto simp: decode_state_Inl other_callback_def bindE_def)

lemma meta_callback_undecodable:
  "decode_state (state q) = Inl e \<Longrightarrow> e \<noteq> Unmodelled \<Longrightarrow>
   meta_callback w q d = (Inr (Send 500 (js ''Error during Facebook OAuth'')), d)"
  by (auto simp: decode_state_Inl meta_callback_def bindE_def try_catch_def)

lemma callback_undecodable:
  "decode_state (state q) = Inl e \<Longrightarrow> e \<noteq> Unmodelled \<Longrightarrow>
   callback p w q d = (if p = PMeta then Inr (Send 500 (failure_text p)) else Inl e, d)"
  by (cases p)
     (simp_all add: meta_callback_undecodable other_callback_undecodable failure_text_def
        youtube_callback_def x_callback_def pinterest_callback_def linkedin_callback_def)

lemma other_callback_no_code:
  "\<not> truthy (of_opt (code q)) \<Longrightarrow> decode_state (state q) = Inr u \<Longrightarrow>
   other_callback t x f q d = (Inr (Send 200 t), d)"
  by (auto simp: decode_state_Inr other_callback_def bindE_def respond_def)

lemma meta_callback_no_code:
  "\<not> truthy (of_opt (code q)) \<Longrightarrow> decode_state (state q) = Inr u \<Longrightarrow>
   meta_callback w q d = (Inr (Send 200 (js ''No code provided'')), d)"
  by (auto simp: decode_state_Inr meta_callback_def bindE_def respond_def try_catch_def)

lemma callback_no_code:
  "\<not> truthy (of_opt (code q)) \<Longrightarrow> decode_state (state q) = Inr u \<Longrightarrow>
   callback p w q d = (Inr (Send 200 (no_code_text p)), d)"
  by (cases p)
     (simp_all add: meta_callback_no_code other_callback_no_code no_code_text_def
        youtube_callback_def x_callback_def pinterest_callback_def linkedin_callback_def)

lemma other_callback_no_code_db:
  "\<not> truthy (of_opt (code q)) \<Longrightarrow> snd (other_callback t x f q d) = d"
  by (cases "parse_state (state q)"; cases "state_user (projr (parse_state (state q)))")
     (auto simp: other_callback_def bindE_def respond_def)

lemma meta_callback_no_code_db:
  "\<not> truthy (of_opt (code q)) \<Longrightarrow> snd (meta_callback w q d) = d"
  by (cases "parse_state (state q)"; cases "state_user (projr (parse_state (state q)))")
     (auto simp: meta_callback_def bindE_def respond_def try_catch_def)

text \<open>
  A callback request without a code (absent or empty) never changes the table. It is
  answered 200 with the route's "No code" text whenever the state is absent, empty or
  decodes; when the state does not decode, the request fails before the code is looked
  at: the Meta route answers 500, the other routes end with the exception and send no
  response.
\<close>

lemma callback_without_code:
  assumes "\<not> truthy (of_opt (code q))"
  shows "snd (callback p w q d) = d
    \<and> (\<forall>u. decode_state (state q) = Inr u \<longrightarrow>
          fst (callback p w q d) = Inr (Send 200 (no_code_text p)))
    \<and> (\<forall>e. decode_state (state q) = Inl e \<and> e \<noteq> Unmodelled \<longrightarrow>
          fst (callback p w q d) = (if p = PMeta then Inr (Send 500 (failure_text p)) else Inl e))"
proof -
  have "snd (callback p w q d) = d"
    using assms
    by (cases p)
       (simp_all add: meta_callback_no_code_db other_callback_no_code_db
          youtube_callback_def x_callback_def pinterest_callback_def linkedin_callback_def)
  then show ?thesis
    using assms by (auto simp: callback_no_code callback_undecodable)
qed

subsection \<open>What a completed exchange stored\<close>

lemma bindE_Inr:
  "bindE r f d = (Inr x, d') \<longleftrightarrow> (\<exists>v. r = Inr v \<and> f v d = (Inr x, d'))"
  by (cases r) (simp_all add: bindE_def)

lemma save_Inr:
  "save now a k d = (Inr x, d') \<longleftrightarrow> (\<exists>d1. saveAccount d now a = Inr d1 \<and> k d1 = (Inr x, d'))"
  by (cases "saveAccount d now a") (simp_all add: save_def)

lemma respond_Inr: "respond r d = (Inr x, d') \<longleftrightarrow> (x = r \<and> d' = d)"
  by (auto simp: respond_def)

lemma try_catch_200:
  "try_catch m (Send 500 t) d = (Inr (Send 200 b), d') \<longleftrightarrow> m d = (Inr (Send 200 b), d')"
  by (cases "m d"; cases "fst (m d)") (auto simp: try_catch_def)

lemma youtube_exchange_Inr:
  assumes "youtube_exchange w c user d = (Inr x, d')"
  shows "\<exists>ei ex pu at rt m. reported_expires_in PYouTube w c = Inr ei \<and> expires_at_of w ei = Inr ex
           \<and> saveAccount d (db_now w)
                 \<lparr>userId = user, platform' = VStr (platform_name PYouTube), platformUserId = pu,
                  accessToken = at, refreshToken = rt, meta = m, expiresAt = ex\<rparr> = Inr d'"
  using assms
  by (auto simp: youtube_exchange_def bindE_Inr save_Inr respond_Inr reported_expires_in_def
      platform_name_def)
     (intro exI, assumption)

lemma x_exchange_Inr:
  assumes "x_exchange w c user d = (Inr x, d')"
  shows "\<exists>ei ex pu at rt m. reported_expires_in PX w c = Inr ei \<and> expires_at_of w ei = Inr ex
           \<and> saveAccount d (db_now w)
                 \<lparr>userId = user, platform' = VStr (platform_name PX), platformUserId = pu,
                  accessToken = at, refreshToken = rt, meta = m, expiresAt = ex\<rparr> = Inr d'"
  using assms
  by (auto simp: x_exchange_def bindE_Inr save_Inr respond_Inr reported_expires_in_def
      platform_name_def)
     (intro exI, assumption)

lemma pinterest_exchange_Inr:
  assumes "pinterest_exchange w c user d = (Inr x, d')"
  shows "\<exists>ei ex pu at rt m. reported_expires_in PPinterest w c = Inr ei \<and> expires_at_of w ei = Inr ex
           \<and> saveAccount d (db_now w)
                 \<lparr>userId = user, platform' = VStr (platform_name PPinterest), platformUserId = pu,
                  accessToken = at, refreshToken = rt, meta = m, expiresAt = ex\<rparr> = Inr d'"
  using assms
  by (auto simp: pinterest_exchange_def bindE_Inr save_Inr respond_Inr reported_expires_in_def
      platform_name_def)
     (intro exI, assumption)

lemma linkedin_exchange_Inr:
  assumes "linkedin_exchange w c user d = (Inr x, d')"
  shows "\<exists>ei ex pu at rt m. reported_expires_in PLinkedIn w c = Inr ei \<and> expires_at_of w ei = Inr ex
           \<and> saveAccount d (db_now w)
                 \<lparr>userId = user, platform' = VStr (platform_name PLinkedIn), platformUserId = pu,
                  accessToken = at, refreshToken = rt, meta = m, expiresAt = ex\<rparr> = Inr d'"
  using assms
  by (auto simp: linkedin_exchange_def bindE_Inr save_Inr respond_Inr reported_expires_in_def
      platform_name_def)
     (intro exI, assumption)

lemma other_callback_200:
  assumes "other_callback t x f q d = (Inr (Send 200 b), d')" "truthy (of_opt (code q))"
  shows "\<exists>user. decode_state (state q) = Inr user \<and> x (of_opt (code q)) user d = (Inr (Send 200 b), d')"
  using assms
  by (auto simp: other_callback_def bindE_Inr try_catch_200 decode_state_Inr)

lemma state_user_truthy: "state_user ps = Inr user \<Longrightarrow> truthy user"
  by (auto simp: state_user_def thenR_Inr js_or_def js_def)

lemma decode_state_truthy: "decode_state st = Inr user \<Longrightarrow> truthy user"
  by (auto simp: decode_state_Inr state_user_truthy)

lemma meta_exchange_Inr:
  assumes "meta_exchange w c ps user d = (Inr x, d')"
  shows "\<exists>ei ex. reported_expires_in PMeta w c = Inr ei \<and> meta_expires_at w ei = Inr ex \<and>
     ((x = Send 200 no_pages_text \<and>
        (\<exists>pu at m. saveAccount d (db_now w)
            \<lparr>userId = user, platform' = VStr (js ''facebook''), platformUserId = pu,
             accessToken = at, refreshToken = Null, meta = m, expiresAt = ex\<rparr> = Inr d'))
      \<or> (\<exists>pageId pt m ig d1.
            x = Send 200 (connected_text (to_string user) (to_string (js_or ig (VStr (js ''none'')))))
          \<and> saveAccount d (db_now w)
                \<lparr>userId = user, platform' = VStr (js ''facebook''), platformUserId = pageId,
                 accessToken = pt, refreshToken = Null, meta = m, expiresAt = Null\<rparr> = Inr d1
          \<and> (if truthy ig
               then saveAccount d1 (db_now w)
                      \<lparr>userId = user, platform' = VStr (js ''instagram''), platformUserId = ig,
                       accessToken = pt, refreshToken = Null,
                       meta = VObj [(js ''linked_page'', pageId)], expiresAt = Null\<rparr> = Inr d'
               else d' = d1)))"
proof -
  from assms obtain t1 short t2 long ei ex pagesRes pagesData len where
    r: "http w (MetaAccessToken c) = Inr t1" "get_prop t1 (js ''access_token'') = Inr short"
       "http w (MetaExchangeToken short) = Inr t2" "get_prop t2 (js ''access_token'') = Inr long"
       "get_prop t2 (js ''expires_in'') = Inr ei" "meta_expires_at w ei = Inr ex"
    and rest: "(if len = VNum 0 then
         bindE (get_prop ps (js ''user_id'')) (\<lambda>stateUser.
         save (db_now w)
           \<lparr>userId = user, platform' = VStr (js ''facebook''),
            platformUserId = js_or stateUser Null, accessToken = long, refreshToken = Null,
            meta = VObj [(js ''note'', VStr (js ''no-pages''))], expiresAt = ex\<rparr>
           (respond (Send 200 (js ''Connected to Facebook but no pages found.''))))
       else
         bindE (get_prop (js_or pagesData (VArr [])) (js ''0'')) (\<lambda>page.
         bindE (get_prop page (js ''access_token'')) (\<lambda>pageAccessToken.
         bindE (get_prop page (js ''id'')) (\<lambda>pageId.
         bindE (http w (MetaPage pageId pageAccessToken)) (\<lambda>pageInfo.
         bindE (get_prop pageInfo (js ''connected_instagram_account'')) (\<lambda>instagramAccount.
         bindE (if truthy instagramAccount then get_prop instagramAccount (js ''id'') else Inr Null)
           (\<lambda>instagramUserId.
         bindE (get_prop page (js ''name'')) (\<lambda>pageName.
         save (db_now w)
           \<lparr>userId = user, platform' = VStr (js ''facebook''), platformUserId = pageId,
            accessToken = pageAccessToken, refreshToken = Null,
            meta = VObj [(js ''page_name'', pageName)], expiresAt = Null\<rparr>
           ((if truthy instagramUserId then
               save (db_now w)
                 \<lparr>userId = user, platform' = VStr (js ''instagram''),
                  platformUserId = instagramUserId, accessToken = pageAccessToken,
                  refreshToken = Null, meta = VObj [(js ''linked_page'', pageId)],
                  expiresAt = Null\<rparr>
             else (\<lambda>k. k))
            (respond (Send 200
               (js ''<h3>Connected successfully!</h3><p>User: '' @ to_string user
                @ js ''. Instagram ID: '' @ to_string (js_or instagramUserId (VStr (js ''none'')))
                @ js ''.</p>'')))))))))))) d = (Inr x, d')"
    unfolding meta_exchange_def bindE_Inr by blast
  have e: "reported_expires_in PMeta w c = Inr ei"
    using r by (simp add: reported_expires_in_def)
  show ?thesis
  proof (cases "len = VNum 0")
    case True
    with rest have "x = Send 200 no_pages_text \<and>
        (\<exists>pu at m. saveAccount d (db_now w)
            \<lparr>userId = user, platform' = VStr (js ''facebook''), platformUserId = pu,
             accessToken = at, refreshToken = Null, meta = m, expiresAt = ex\<rparr> = Inr d')"
      by (auto simp: bindE_Inr save_Inr respond_Inr no_pages_text_def)
    with e r(6) show ?thesis by blast
  next
    case False
    with rest obtain page pt pageId pageInfo ia ig pn d1 where
      s1: "saveAccount d (db_now w)
             \<lparr>userId = user, platform' = VStr (js ''facebook''), platformUserId = pageId,
              accessToken = pt, refreshToken = Null, meta = VObj [(js ''page_name'', pn)],
              expiresAt = Null\<rparr> = Inr d1"
      and k: "(if truthy ig then
               save (db_now w)
                 \<lparr>userId = user, platform' = VStr (js ''instagram''),
                  platformUserId = ig, accessToken = pt,
                  refreshToken = Null, meta = VObj [(js ''linked_page'', pageId)],
                  expiresAt = Null\<rparr>
             else (\<lambda>k. k))
            (respond (Send 200
               (js ''<h3>Connected successfully!</h3><p>User: '' @ to_string user
                @ js ''. Instagram ID: '' @ to_string (js_or ig (VStr (js ''none'')))
                @ js ''.</p>''))) d1 = (Inr x, d')"
      by (simp add: bindE_Inr save_Inr) blast
    have x: "x = Send 200 (connected_text (to_string user) (to_string (js_or ig (VStr (js ''none'')))))"
      using k by (cases "truthy ig") (auto simp: save_Inr respond_Inr connected_text_def)
    have s2: "if truthy ig
               then saveAccount d1 (db_now w)
                      \<lparr>userId = user, platform' = VStr (js ''instagram''), platformUserId = ig,
                       accessToken = pt, refreshToken = Null,
                       meta = VObj [(js ''linked_page'', pageId)], expiresAt = Null\<rparr> = Inr d'
               else d' = d1"
      using k by (cases "truthy ig") (auto simp: save_Inr respond_Inr)
    from x s1 s2 e r(6) show ?thesis by blast
  qed
qed

lemma expires_at_of_values:
  "expires_at_of w (VNum D) = Inr ex \<Longrightarrow> ex = VNum (date_now w div 1000 + D)"
  "expires_at_of w Undefined = Inr ex \<Longrightarrow> ex = VNaN"
  by (auto simp: expires_at_of_def epoch_seconds_def split: if_splits)

lemma meta_expires_at_values:
  "D \<noteq> 0 \<Longrightarrow> meta_expires_at w (VNum D) = Inr ex \<Longrightarrow> ex = VNum (date_now w div 1000 + D)"
  "\<not> truthy ei \<Longrightarrow> meta_expires_at w ei = Inr ex \<Longrightarrow> ex = Null"
  by (auto simp: meta_expires_at_def epoch_seconds_def split: if_splits)

lemma stored_after_save:
  assumes "saveAccount d now a = Inr d'" "truthy (userId a)" "platform' a = VStr p"
  shows "\<exists>uid r. userId a = VStr uid \<and> select_account d' uid p = Some r
           \<and> bind_integer (default_null (expiresAt a)) = Inr (expires_at r)
           \<and> bind_text (platformUserId a) = Inr (platform_user_id r)
           \<and> bind_text (accessToken a) = Inr (access_token r)"
proof -
  obtain uid where u: "userId a = VStr uid"
    using saveAccount_user_text [OF assms(1,2)] by blast
  obtain pu at rt mj ex where b: "bind_text (platformUserId a) = Inr pu"
      "bind_text (accessToken a) = Inr at" "bind_integer (default_null (expiresAt a)) = Inr ex"
    and d': "d' = upsert d now (SText (to_well_formed uid)) (SText (to_well_formed p)) pu at rt mj ex"
    using saveAccount_Inr [OF assms(1) u assms(3)] by blast
  obtain r where "select_account d' uid p = Some r" "platform_user_id r = pu" "access_token r = at"
      "expires_at r = ex"
    unfolding d' using upsert_select [of d now uid p pu at rt mj ex] by blast
  with u b show ?thesis by auto
qed

lemma other_callback_Inr:
  assumes "p \<noteq> PMeta" "callback p w \<lparr>code = Some c, state = st\<rparr> d = (Inr (Send 200 body), d')"
    "c \<noteq> []"
  shows "\<exists>user ei ex pu at rt m. decode_state st = Inr user
           \<and> reported_expires_in p w (VStr c) = Inr ei \<and> expires_at_of w ei = Inr ex
           \<and> saveAccount d (db_now w)
                 \<lparr>userId = user, platform' = VStr (platform_name p), platformUserId = pu,
                  accessToken = at, refreshToken = rt, meta = m, expiresAt = ex\<rparr> = Inr d'"
proof (cases p)
  case PMeta
  with assms(1) show ?thesis by simp
next
  case PYouTube
  with assms(2,3) obtain user where "decode_state st = Inr user"
      "youtube_exchange w (VStr c) user d = (Inr (Send 200 body), d')"
    using other_callback_200 [of _ "youtube_exchange w" _ "\<lparr>code = Some c, state = st\<rparr>" d body d']
    by (auto simp: youtube_callback_def)
  then show ?thesis
    unfolding PYouTube using youtube_exchange_Inr by blast
next
  case PX
  with assms(2,3) obtain user where "decode_state st = Inr user"
      "x_exchange w (VStr c) user d = (Inr (Send 200 body), d')"
    using other_callback_200 [of _ "x_exchange w" _ "\<lparr>code = Some c, state = st\<rparr>" d body d']
    by (auto simp: x_callback_def)
  then show ?thesis
    unfolding PX using x_exchange_Inr by blast
next
  case PPinterest
  with assms(2,3) obtain user where "decode_state st = Inr user"
      "pinterest_exchange w (VStr c) user d = (Inr (Send 200 body), d')"
    using other_callback_200 [of _ "pinterest_exchange w" _ "\<lparr>code = Some c, state = st\<rparr>" d body d']
    by (auto simp: pinterest_callback_def)
  then show ?thesis
    unfolding PPinterest using pinterest_exchange_Inr by blast
next
  case PLinkedIn
  with assms(2,3) obtain user where "decode_state st = Inr user"
      "linkedin_exchange w (VStr c) user d = (Inr (Send 200 body), d')"
    using other_callback_200 [of _ "linkedin_exchange w" _ "\<lparr>code = Some c, state = st\<rparr>" d body d']
    by (auto simp: linkedin_callback_def)
  then show ?thesis
    unfolding PLinkedIn using linkedin_exchange_Inr by blast
qed

lemma other_stored_expiry:
  assumes "p \<noteq> PMeta" "callback p w \<lparr>code = Some c, state = st\<rparr> d = (Inr (Send 200 body), d')"
    "c \<noteq> []"
  shows "\<exists>uid ei r. decode_state st = Inr (VStr uid) \<and> reported_expires_in p w (VStr c) = Inr ei
           \<and> select_account d' uid (platform_name p) = Some r
           \<and> (\<forall>D. ei = VNum D \<longrightarrow> expires_at r = SInt (date_now w div 1000 + D))
           \<and> (ei = Undefined \<longrightarrow> expires_at r = SNull)"
proof -
  obtain user ei ex pu at rt m where u: "decode_state st = Inr user"
    and ei: "reported_expires_in p w (VStr c) = Inr ei" and ex: "expires_at_of w ei = Inr ex"
    and s: "saveAccount d (db_now w)
                 \<lparr>userId = user, platform' = VStr (platform_name p), platformUserId = pu,
                  accessToken = at, refreshToken = rt, meta = m, expiresAt = ex\<rparr> = Inr d'"
    using other_callback_Inr [OF assms] by blast
  have "truthy user"
    using u by (rule decode_state_truthy)
  with s obtain uid r where uid: "user = VStr uid" and r: "select_account d' uid (platform_name p) = Some r"
    and b: "bind_integer (default_null ex) = Inr (expires_at r)"
    using stored_after_save [OF s, of "platform_name p"] by auto
  have "\<forall>D. ei = VNum D \<longrightarrow> expires_at r = SInt (date_now w div 1000 + D)"
    using ex b by (auto simp: default_null_def dest!: expires_at_of_values)
  moreover have "ei = Undefined \<longrightarrow> expires_at r = SNull"
    using ex b by (auto simp: default_null_def dest!: expires_at_of_values)
  ultimately show ?thesis
    using u uid ei r by blast
qed

lemma meta_callback_Inr:
  assumes "callback PMeta w \<lparr>code = Some c, state = st\<rparr> d = (Inr (Send 200 body), d')" "c \<noteq> []"
  shows "\<exists>ps user. decode_state st = Inr user
           \<and> meta_exchange w (VStr c) ps user d = (Inr (Send 200 body), d')"
  using assms
  by (auto simp: meta_callback_def try_catch_200 bindE_Inr decode_state_Inr)

lemma connected_text_inject: "connected_text u a = connected_text u b \<Longrightarrow> a = b"
  by (simp add: connected_text_def)

lemma connected_text_not_no_pages: "connected_text u a \<noteq> no_pages_text"
  by (simp add: connected_text_def no_pages_text_def js_def)

lemma facebook_not_instagram: "js ''instagram'' \<noteq> js ''facebook''"
  by (simp add: js_def)

lemma meta_stored_expiry:
  assumes "callback PMeta w \<lparr>code = Some c, state = st\<rparr> d = (Inr (Send 200 body), d')" "c \<noteq> []"
  shows "\<exists>uid ei r. decode_state st = Inr (VStr uid) \<and> reported_expires_in PMeta w (VStr c) = Inr ei
     \<and> select_account d' uid (js ''facebook'') = Some r
     \<and> (body = no_pages_text \<longrightarrow>
          (\<forall>D. ei = VNum D \<and> D \<noteq> 0 \<longrightarrow> expires_at r = SInt (date_now w div 1000 + D))
          \<and> (\<not> truthy ei \<longrightarrow> expires_at r = SNull))
     \<and> (body \<noteq> no_pages_text \<longrightarrow>
          expires_at r = SNull
          \<and> (\<forall>ig. body = connected_text uid ig \<and> ig \<noteq> js ''none'' \<longrightarrow>
                (\<exists>r'. select_account d' uid (js ''instagram'') = Some r'
                      \<and> platform_user_id r' = SText (to_well_formed ig) \<and> expires_at r' = SNull)))"
proof -
  obtain ps user where u: "decode_state st = Inr user"
    and m: "meta_exchange w (VStr c) ps user d = (Inr (Send 200 body), d')"
    using meta_callback_Inr [OF assms] by blast
  have t: "truthy user"
    using u by (rule decode_state_truthy)
  obtain ei ex where ei: "reported_expires_in PMeta w (VStr c) = Inr ei"
    and ex: "meta_expires_at w ei = Inr ex"
    and br: "(Send 200 body = Send 200 no_pages_text \<and>
        (\<exists>pu at m. saveAccount d (db_now w)
            \<lparr>userId = user, platform' = VStr (js ''facebook''), platformUserId = pu,
             accessToken = at, refreshToken = Null, meta = m, expiresAt = ex\<rparr> = Inr d'))
      \<or> (\<exists>pageId pt m ig d1.
            Send 200 body = Send 200 (connected_text (to_string user) (to_string (js_or ig (VStr (js ''none'')))))
          \<and> saveAccount d (db_now w)
                \<lparr>userId = user, platform' = VStr (js ''facebook''), platformUserId = pageId,
                 accessToken = pt, refreshToken = Null, meta = m, expiresAt = Null\<rparr> = Inr d1
          \<and> (if truthy ig
               then saveAccount d1 (db_now w)
                      \<lparr>userId = user, platform' = VStr (js ''instagram''), platformUserId = ig,
                       accessToken = pt, refreshToken = Null,
                       meta = VObj [(js ''linked_page'', pageId)], expiresAt = Null\<rparr> = Inr d'
               else d' = d1))"
    using meta_exchange_Inr [OF m] by blast
  from br show ?thesis
  proof (elim disjE conjE exE)
    fix pu at m'
    assume b: "Send 200 body = Send 200 no_pages_text"
      and s: "saveAccount d (db_now w)
            \<lparr>userId = user, platform' = VStr (js ''facebook''), platformUserId = pu,
             accessToken = at, refreshToken = Null, meta = m', expiresAt = ex\<rparr> = Inr d'"
    obtain uid r where uid: "user = VStr uid" and r: "select_account d' uid (js ''facebook'') = Some r"
      and bi: "bind_integer (default_null ex) = Inr (expires_at r)"
      using stored_after_save [OF s, of "js ''facebook''"] t by auto
    have "\<forall>D. ei = VNum D \<and> D \<noteq> 0 \<longrightarrow> expires_at r = SInt (date_now w div 1000 + D)"
      using ex bi by (auto simp: default_null_def dest!: meta_expires_at_values(1))
    moreover have "\<not> truthy ei \<longrightarrow> expires_at r = SNull"
      using ex bi by (auto simp: default_null_def dest!: meta_expires_at_values(2))
    ultimately show ?thesis
      using u uid ei r b by auto
  next
    fix pageId pt m' ig d1
    assume b: "Send 200 body = Send 200 (connected_text (to_string user) (to_string (js_or ig (VStr (js ''none'')))))"
      and s1: "saveAccount d (db_now w)
                \<lparr>userId = user, platform' = VStr (js ''facebook''), platformUserId = pageId,
                 accessToken = pt, refreshToken = Null, meta = m', expiresAt = Null\<rparr> = Inr d1"
      and s2: "if truthy ig
               then saveAccount d1 (db_now w)
                      \<lparr>userId = user, platform' = VStr (js ''instagram''), platformUserId = ig,
                       accessToken = pt, refreshToken = Null,
                       meta = VObj [(js ''linked_page'', pageId)], expiresAt = Null\<rparr> = Inr d'
               else d' = d1"
    obtain uid r where uid: "user = VStr uid" and r: "select_account d1 uid (js ''facebook'') = Some r"
      and bi: "bind_integer (default_null Null) = Inr (expires_at r)"
      using stored_after_save [OF s1, of "js ''facebook''"] t by auto
    have n: "expires_at r = SNull"
      using bi by (simp add: default_null_def)
    have body: "body = connected_text uid (to_string (js_or ig (VStr (js ''none''))))"
      using b uid by simp
    then have nb: "body \<noteq> no_pages_text"
      using connected_text_not_no_pages by simp
    show ?thesis
    proof (cases "truthy ig")
      case False
      with s2 have "d' = d1" by simp
      moreover have "\<forall>ig'. body = connected_text uid ig' \<and> ig' \<noteq> js ''none'' \<longrightarrow>
          (\<exists>r'. select_account d' uid (js ''instagram'') = Some r'
                      \<and> platform_user_id r' = SText (to_well_formed ig') \<and> expires_at r' = SNull)"
        using False body by (auto simp: js_or_def dest: connected_text_inject)
      ultimately show ?thesis
        using u uid ei r n nb by auto
    next
      case True
      with s2 have s2': "saveAccount d1 (db_now w)
                      \<lparr>userId = user, platform' = VStr (js ''instagram''), platformUserId = ig,
                       accessToken = pt, refreshToken = Null,
                       meta = VObj [(js ''linked_page'', pageId)], expiresAt = Null\<rparr> = Inr d'"
        by simp
      obtain pu at rt mj ex' where
        d': "d' = upsert d1 (db_now w) (SText (to_well_formed uid)) (SText (js ''instagram'')) pu at rt mj ex'"
        using saveAccount_Inr [OF s2', of uid "js ''instagram''"] uid by auto
      have fb: "select_account d' uid (js ''facebook'') = Some r"
        unfolding d' using r facebook_not_instagram by (simp add: upsert_select_other)
      obtain uid' r' where "user = VStr uid'" and r': "select_account d' uid' (js ''instagram'') = Some r'"
        and bi': "bind_integer (default_null Null) = Inr (expires_at r')"
        and bp: "bind_text ig = Inr (platform_user_id r')"
        using stored_after_save [OF s2', of "js ''instagram''"] t by auto
      then have r'': "select_account d' uid (js ''instagram'') = Some r'" "expires_at r' = SNull"
        using uid by (simp_all add: default_null_def)
      obtain s where ig: "ig = VStr s" "platform_user_id r' = SText (to_well_formed s)"
        using bp True by (auto simp: bind_text_Inr)
      have "\<forall>ig'. body = connected_text uid ig' \<and> ig' \<noteq> js ''none'' \<longrightarrow>
          (\<exists>r'. select_account d' uid (js ''instagram'') = Some r'
                      \<and> platform_user_id r' = SText (to_well_formed ig') \<and> expires_at r' = SNull)"
        using True body ig r'' by (auto simp: js_or_def dest: connected_text_inject)
      then show ?thesis
        using u uid ei fb n nb by auto
    qed
  qed
qed

text \<open>
  When a callback with a code completes (answers 200), the record it stored for
  the user carries this \<open>expires_at\<close>. YouTube, X, Pinterest, LinkedIn: \<open>T + D\<close> when the
  token response reports the number \<open>D\<close>, with \<open>T = floor(Date.now()/1000)\<close>, and absent when
  it reports no \<open>expires_in\<close>. Meta without pages: \<open>T + D\<close> when the long-lived token
  response reports a non-zero \<open>D\<close>, absent when \<open>expires_in\<close> is missing or falsy. Meta with a
  page: the facebook record, and the instagram record when there is one, carry an absent
  \<open>expires_at\<close> whatever was reported.
\<close>

lemma stored_expires_at:
  assumes "callback p w \<lparr>code = Some c, state = st\<rparr> d = (Inr (Send 200 body), d')" and "c \<noteq> []"
  shows "\<exists>uid ei r.
      decode_state st = Inr (VStr uid) \<and> reported_expires_in p w (VStr c) = Inr ei
    \<and> select_account d' uid (platform_name p) = Some r
    \<and> (p \<noteq> PMeta \<longrightarrow>
         (\<forall>D. ei = VNum D \<longrightarrow> expires_at r = SInt (date_now w div 1000 + D))
         \<and> (ei = Undefined \<longrightarrow> expires_at r = SNull))
    \<and> (p = PMeta \<and> body = no_pages_text \<longrightarrow>
         (\<forall>D. ei = VNum D \<and> D \<noteq> 0 \<longrightarrow> expires_at r = SInt (date_now w div 1000 + D))
         \<and> (\<not> truthy ei \<longrightarrow> expires_at r = SNull))
    \<and> (p = PMeta \<and> body \<noteq> no_pages_text \<longrightarrow>
         expires_at r = SNull
         \<and> (\<forall>ig. body = connected_text uid ig \<and> ig \<noteq> js ''none'' \<longrightarrow>
               (\<exists>r'. select_account d' uid (js ''instagram'') = Some r'
                     \<and> platform_user_id r' = SText (to_well_formed ig) \<and> expires_at r' = SNull)))"
proof (cases "p = PMeta")
  case True
  have "platform_name PMeta = js ''facebook''"
    by (simp add: platform_name_def)
  then show ?thesis
    using meta_stored_expiry [of w c st d body d'] assms True by simp
next
  case False
  then show ?thesis
    using other_stored_expiry [OF False assms] by simp
qed

subsection \<open>The example worlds\<close>

lemmas eval_defs = meta_callback_def youtube_callback_def other_callback_def youtube_exchange_def
  try_catch_def bindE_def respond_def save_def saveAccount_def
  meta_exchange_def meta_expires_at_def expires_at_of_def epoch_seconds_def js_or_def js_and_def opt_prop_def
  decode_state_def state_user_def JSON_parse_def separator_after_def parse_key_def is_ws_def
  obj_define_def array_index_def is_digit_def hex_value_def leading_ones_def
  conflict_target_ok_def modelled_schema_def social_accounts_schema_def
  default_null_def meta_param_def upsert_def same_key_def do_update_def QuoteJSONString_def
  quote_unit_def is_high_def is_low_def reported_expires_in_def select_account_def
  no_pages_world_def instagram_world_def example_http_def example_page_def keyed_db_def state_u1_def

lemma decode_u1: "decode_state (Some state_u1) = Inr (VStr (js ''u1''))"
  by (simp add: js_def eval_defs)

text \<open>
  C7. On a database created by this code, the Meta callback with a long-lived token
  and an empty list of pages persists no record: \<open>saveAccount\<close> throws when it prepares its
  statement, the handler catches the exception and answers 500.
\<close>

theorem meta_no_pages_persists_nothing:
  "callback PMeta no_pages_world \<lparr>code = Some (js ''abc''), state = Some state_u1\<rparr> (open_db None)
     = (Inr (Send 500 (js ''Error during Facebook OAuth'')), open_db None)"
  by (simp add: js_def eval_defs)

text \<open>
  C8. On a database created by this code, the Meta callback with one page linked to
  the Instagram account \<open>IG123\<close> persists no record: the first \<open>saveAccount\<close> throws, the
  second is never reached, and the answer is 500.
\<close>

theorem meta_instagram_persists_nothing:
  "callback PMeta instagram_world \<lparr>code = Some (js ''abc''), state = Some state_u1\<rparr> (open_db None)
     = (Inr (Send 500 (js ''Error during Facebook OAuth'')), open_db None)"
  by (simp add: js_def eval_defs)

text \<open>
  The same requests on a table that has the uniqueness constraint store the records the
  handler builds.
\<close>

lemma meta_no_pages_on_keyed_table:
  "callback PMeta no_pages_world \<lparr>code = Some (js ''abc''), state = Some state_u1\<rparr> keyed_db
     = (Inr (Send 200 (js ''Connected to Facebook but no pages found.'')),
        keyed_db\<lparr>rows :=
          [\<lparr>row_id = 1, user_id = SText (js ''u1''), platform = SText (js ''facebook''),
            platform_user_id = SText (js ''u1''), access_token = SText (js ''long-token''),
            refresh_token = SNull, meta_json = SText (0x7B # 0x22 # js ''note'' @ 0x22 # 0x3A # 0x22 # js ''no-pages'' @ [0x22, 0x7D]),
            expires_at = SInt 1705184000, created_at = SInt 1700000000\<rparr>], seq := 1\<rparr>)"
  by (simp add: js_def eval_defs)

lemma meta_instagram_on_keyed_table:
  "callback PMeta instagram_world \<lparr>code = Some (js ''abc''), state = Some state_u1\<rparr> keyed_db
     = (Inr (Send 200 (js ''<h3>Connected successfully!</h3><p>User: u1. Instagram ID: IG123.</p>'')),
        keyed_db\<lparr>rows :=
          [\<lparr>row_id = 1, user_id = SText (js ''u1''), platform = SText (js ''facebook''),
            platform_user_id = SText (js ''PAGE1''), access_token = SText (js ''page-token''),
            refresh_token = SNull, meta_json = SText (0x7B # 0x22 # js ''page_name'' @ 0x22 # 0x3A # 0x22 # js ''My Page'' @ [0x22, 0x7D]),
            expires_at = SNull, created_at = SInt 1700000000\<rparr>,
           \<lparr>row_id = 2, user_id = SText (js ''u1''), platform = SText (js ''instagram''),
            platform_user_id = SText (js ''IG123''), access_token = SText (js ''page-token''),
            refresh_token = SNull, meta_json = SText (0x7B # 0x22 # js ''linked_page'' @ 0x22 # 0x3A # 0x22 # js ''PAGE1'' @ [0x22, 0x7D]),
            expires_at = SNull, created_at = SInt 1700000000\<rparr>], seq := 2\<rparr>)"
  by (simp add: js_def eval_defs)

lemma youtube_on_keyed_table:
  "callback PYouTube no_pages_world \<lparr>code = Some (js ''abc''), state = None\<rparr> keyed_db
     = (Inr (Send 200 (js ''<h3>YouTube connected!</h3><p>Channel: UC1</p>'')),
        keyed_db\<lparr>rows :=
          [\<lparr>row_id = 1, user_id = SText (js ''unknown''), platform = SText (js ''youtube''),
            platform_user_id = SText (js ''UC1''), access_token = SText (js ''yt-access''),
            refresh_token = SText (js ''yt-refresh''), meta_json = SText (js ''{}''),
            expires_at = SInt 1700003600, created_at = SInt 1700000000\<rparr>], seq := 1\<rparr>)"
  by (simp add: js_def eval_defs)

subsection \<open>The Meta branches on a table where the statement is accepted\<close>

lemma saveAccount_keyed:
  assumes "conflict_target_ok (uniques d) [''user_id'', ''platform'']" "modelled_schema (uniques d)"
    and "bind_text (userId a) = Inr u" "bind_text (platform' a) = Inr p"
    and "bind_text (platformUserId a) = Inr pu" "bind_text (accessToken a) = Inr at"
    and "bind_text (default_null (refreshToken a)) = Inr rt"
    and "bind_text (meta_param (default_null (meta a))) = Inr mj"
    and "bind_integer (default_null (expiresAt a)) = Inr ex"
  shows "saveAccount d now a = Inr (upsert d now u p pu at rt mj ex)"
  using assms by (simp add: saveAccount_def)

lemma schema_upsert [simp]: "uniques (upsert d now u p pu at rt mj ex) = uniques d"
  by (simp add: upsert_def)

lemma array_index_0: "array_index (js ''0'') = Some 0"
  by (simp add: array_index_def js_def is_digit_def)

lemma get_first_page: "get_prop (VArr (page # others)) (js ''0'') = Inr page"
  by (simp add: array_index_0) (simp add: js_def)

lemma length_not_0: "get_prop (VArr (page # others)) (js ''length'') \<noteq> Inr (VNum 0)"
  by simp

text \<open>
  The zero-pages branch on a table where the statement is accepted: one upsert, of the
  facebook record with the long-lived token and the computed expiry.
\<close>

lemma meta_no_pages_where_the_statement_is_accepted:
  assumes "conflict_target_ok (uniques d) [''user_id'', ''platform'']" "modelled_schema (uniques d)"
    and "parse_state st = Inr ps" "get_prop ps (js ''user_id'') = Inr su"
    and "js_or su (VStr (js ''unknown'')) = VStr uid" "bind_text (js_or su Null) = Inr pu"
    and "c \<noteq> []"
    and "http w (MetaAccessToken (VStr c)) = Inr t1" "get_prop t1 (js ''access_token'') = Inr short"
    and "http w (MetaExchangeToken short) = Inr t2"
    and "get_prop t2 (js ''access_token'') = Inr (VStr long)"
    and "get_prop t2 (js ''expires_in'') = Inr ei" "meta_expires_at w ei = Inr ex"
    and "bind_integer (default_null ex) = Inr exS"
    and "http w (MetaAccounts (VStr long)) = Inr pr" "get_prop pr (js ''data'') = Inr (VArr [])"
  shows "callback PMeta w \<lparr>code = Some c, state = st\<rparr> d =
     (Inr (Send 200 no_pages_text),
      upsert d (db_now w) (SText (to_well_formed uid)) (SText (js ''facebook'')) pu
        (SText (to_well_formed long)) SNull
        (SText (0x7B # 0x22 # js ''note'' @ 0x22 # 0x3A # 0x22 # js ''no-pages'' @ [0x22, 0x7D])) exS)"
proof -
  have "list_all plain (0x7B # 0x22 # js ''note'' @ 0x22 # 0x3A # 0x22 # js ''no-pages'' @ [0x22, 0x7D])"
    by (simp add: plain_js) (simp add: plain_def is_high_def is_low_def)
  then have wf: "to_well_formed (0x7B # 0x22 # js ''note'' @ 0x22 # 0x3A # 0x22 # js ''no-pages'' @ [0x22, 0x7D])
      = 0x7B # 0x22 # js ''note'' @ 0x22 # 0x3A # 0x22 # js ''no-pages'' @ [0x22, 0x7D]"
    by (rule to_well_formed_plain)
  have m: "meta_param (VObj [(js ''note'', VStr (js ''no-pages''))])
      = VStr (0x7B # 0x22 # js ''note'' @ 0x22 # 0x3A # 0x22 # js ''no-pages'' @ [0x22, 0x7D])"
    by (simp add: meta_param_def QuoteJSONString_def js_def quote_unit_def
        is_high_def is_low_def)
  have s: "saveAccount d (db_now w)
      \<lparr>userId = VStr uid, platform' = VStr (js ''facebook''), platformUserId = js_or su Null,
       accessToken = VStr long, refreshToken = Null,
       meta = VObj [(js ''note'', VStr (js ''no-pages''))], expiresAt = ex\<rparr>
     = Inr (upsert d (db_now w) (SText (to_well_formed uid)) (SText (js ''facebook'')) pu
        (SText (to_well_formed long)) SNull
        (SText (0x7B # 0x22 # js ''note'' @ 0x22 # 0x3A # 0x22 # js ''no-pages'' @ [0x22, 0x7D])) exS)"
    using assms(1,2,6,14)
    by (intro saveAccount_keyed) (simp_all add: m default_null_def wf del: to_well_formed.simps)
  show ?thesis
    using assms(3-5,7-13,15,16) s
    by (simp add: meta_callback_def try_catch_def bindE_def state_user_def meta_exchange_def
        save_def respond_def no_pages_text_def js_or_def)
qed

text \<open>
  The page branch, with a linked Instagram account, on a table where the statement is
  accepted: two upserts, the facebook record keyed by the page id and the instagram
  record keyed by the Instagram id, both with the page access token.
\<close>

lemma meta_instagram_where_the_statement_is_accepted:
  assumes "conflict_target_ok (uniques d) [''user_id'', ''platform'']" "modelled_schema (uniques d)"
    and "decode_state st = Inr (VStr uid)"
    and "c \<noteq> []"
    and "http w (MetaAccessToken (VStr c)) = Inr t1" "get_prop t1 (js ''access_token'') = Inr short"
    and "http w (MetaExchangeToken short) = Inr t2"
    and "get_prop t2 (js ''access_token'') = Inr long"
    and "get_prop t2 (js ''expires_in'') = Inr ei" "meta_expires_at w ei = Inr ex"
    and "http w (MetaAccounts long) = Inr pr" "get_prop pr (js ''data'') = Inr (VArr (page # others))"
    and "get_prop page (js ''access_token'') = Inr (VStr pt)" "get_prop page (js ''id'') = Inr (VStr pid)"
    and "get_prop page (js ''name'') = Inr pn"
    and "JSON_stringify (VObj [(js ''page_name'', pn)]) = Some m1"
    and "JSON_stringify (VObj [(js ''linked_page'', VStr pid)]) = Some m2"
    and "http w (MetaPage (VStr pid) (VStr pt)) = Inr info"
    and "get_prop info (js ''connected_instagram_account'') = Inr ia" "truthy ia"
    and "get_prop ia (js ''id'') = Inr (VStr ig)" "ig \<noteq> []"
  shows "callback PMeta w \<lparr>code = Some c, state = st\<rparr> d =
     (Inr (Send 200 (connected_text uid ig)),
      upsert
        (upsert d (db_now w) (SText (to_well_formed uid)) (SText (js ''facebook''))
           (SText (to_well_formed pid)) (SText (to_well_formed pt)) SNull
           (SText (to_well_formed m1)) SNull)
        (db_now w) (SText (to_well_formed uid)) (SText (js ''instagram''))
        (SText (to_well_formed ig)) (SText (to_well_formed pt)) SNull (SText (to_well_formed m2)) SNull)"
proof -
  obtain ps where ps: "parse_state st = Inr ps" "state_user ps = Inr (VStr uid)"
    using assms(3) by (auto simp: decode_state_Inr)
  let ?d1 = "upsert d (db_now w) (SText (to_well_formed uid)) (SText (js ''facebook''))
           (SText (to_well_formed pid)) (SText (to_well_formed pt)) SNull
           (SText (to_well_formed m1)) SNull"
  have s1: "saveAccount d (db_now w)
      \<lparr>userId = VStr uid, platform' = VStr (js ''facebook''), platformUserId = VStr pid,
       accessToken = VStr pt, refreshToken = Null, meta = VObj [(js ''page_name'', pn)],
       expiresAt = Null\<rparr> = Inr ?d1"
    using assms(1,2,16) by (intro saveAccount_keyed) (simp_all add: meta_param_def default_null_def)
  have s2: "saveAccount ?d1 (db_now w)
      \<lparr>userId = VStr uid, platform' = VStr (js ''instagram''), platformUserId = VStr ig,
       accessToken = VStr pt, refreshToken = Null, meta = VObj [(js ''linked_page'', VStr pid)],
       expiresAt = Null\<rparr>
     = Inr (upsert ?d1 (db_now w) (SText (to_well_formed uid)) (SText (js ''instagram''))
         (SText (to_well_formed ig)) (SText (to_well_formed pt)) SNull (SText (to_well_formed m2)) SNull)"
    using assms(1,2,17) by (intro saveAccount_keyed) (simp_all add: meta_param_def default_null_def)
  have l: "get_prop (VArr (page # others)) (js ''length'') = Inr (VNum (int (length (page # others))))"
    by simp
  show ?thesis
    using assms(4-15,18-22) ps s1 s2
    by (simp add: meta_callback_def try_catch_def bindE_def meta_exchange_def
        save_def respond_def connected_text_def js_or_def get_first_page l
        del: get_prop.simps)
qed

subsection \<open>No exchange completes on the declared table\<close>

text \<open>
  Every path of a callback to its 200 answer goes through a \<open>saveAccount\<close> that returned.
  On the table \<open>db.js\<close> declares none does, so no callback with a code answers 200.
\<close>

lemma no_exchange_completes_on_declared_table:
  assumes "uniques d = social_accounts_schema" "c \<noteq> []"
  shows "callback p w \<lparr>code = Some c, state = st\<rparr> d \<noteq> (Inr (Send 200 body), d')"
proof
  assume a: "callback p w \<lparr>code = Some c, state = st\<rparr> d = (Inr (Send 200 body), d')"
  have n: "saveAccount d now args \<noteq> Inr d1" for now args d1
    using saveAccount_declared_schema [OF assms(1)] by simp
  show False
  proof (cases "p = PMeta")
    case False
    then show False
      using other_callback_Inr [OF False a assms(2)] n by blast
  next
    case True
    then obtain ps user where "meta_exchange w (VStr c) ps user d = (Inr (Send 200 body), d')"
      using meta_callback_Inr [of w c st d body d'] a assms(2) by blast
    then show False
      using meta_exchange_Inr [of w "VStr c" ps user d "Send 200 body" d'] n by blast
  qed
qed

text \<open>
  C4. On a database created by this code the exchange with a provider that reports a
  duration stores no \<open>expires_at\<close>, because it stores no record. The YouTube token
  response reports 3600 seconds, the handler computes the expiry and calls \<open>saveAccount\<close>,
  which throws when it prepares its statement; the handler answers 500 and the user has
  no youtube record.
\<close>

theorem exchange_with_duration_stores_no_record:
  "reported_expires_in PYouTube no_pages_world (VStr (js ''abc'')) = Inr (VNum 3600)
   \<and> callback PYouTube no_pages_world \<lparr>code = Some (js ''abc''), state = Some state_u1\<rparr> (open_db None)
       = (Inr (Send 500 (js ''Error handling YouTube OAuth'')), open_db None)
   \<and> select_account (open_db None) (js ''u1'') (js ''youtube'') = None"
  by (simp add: js_def eval_defs)

text \<open>
  On a table with the constraint the same exchange stores the record, with the expiry
  \<open>T + 3600\<close>; the Meta exchange with a page stores the facebook record of the page without
  an expiry, although the long-lived token response reported 5184000 seconds.
\<close>

lemma youtube_expiry_on_keyed_table:
  "\<exists>r. select_account
          (snd (callback PYouTube no_pages_world \<lparr>code = Some (js ''abc''), state = None\<rparr> keyed_db))
          (js ''unknown'') (js ''youtube'') = Some r
        \<and> expires_at r = SInt 1700003600"
proof -
  have n: "js ''abc'' \<noteq> []" "platform_name PYouTube = js ''youtube''"
      "decode_state None = Inr (VStr (js ''unknown''))"
      "reported_expires_in PYouTube no_pages_world (VStr (js ''abc'')) = Inr (VNum 3600)"
      "date_now no_pages_world div 1000 = 1700000000"
    by (simp_all add: js_def platform_name_def eval_defs)
  obtain body d' where c: "callback PYouTube no_pages_world \<lparr>code = Some (js ''abc''), state = None\<rparr> keyed_db
      = (Inr (Send 200 body), d')"
    using youtube_on_keyed_table by blast
  from stored_expires_at [OF c n(1)] show ?thesis
    unfolding c by (auto simp: n)
qed

lemma page_token_expiry_on_keyed_table:
  "reported_expires_in PMeta instagram_world (VStr (js ''abc'')) = Inr (VNum 5184000)
   \<and> fst (callback PMeta instagram_world \<lparr>code = Some (js ''abc''), state = Some state_u1\<rparr> keyed_db)
       = Inr (Send 200 (js ''<h3>Connected successfully!</h3><p>User: u1. Instagram ID: IG123.</p>''))
   \<and> map_option expires_at
        (select_account
          (snd (callback PMeta instagram_world \<lparr>code = Some (js ''abc''), state = Some state_u1\<rparr> keyed_db))
          (js ''u1'') (js ''facebook'')) = Some SNull"
proof -
  have "reported_expires_in PMeta instagram_world (VStr (js ''abc'')) = Inr (VNum 5184000)"
    by (simp add: js_def eval_defs)
  then show ?thesis
    unfolding meta_instagram_on_keyed_table
    by (simp add: select_account_def keyed_db_def is_high_def is_low_def js_def)
qed

subsection \<open>A state that does not decode\<close>

text \<open>
  The handlers fall back on the user \<open>unknown\<close> when there is no state, and when the state
  decodes to a value without a \<open>user_id\<close>.
\<close>

lemma decode_state_absent:
  "st = None \<or> st = Some [] \<Longrightarrow> decode_state st = Inr (VStr (js ''unknown''))"
  by (auto simp: decode_state_def state_user_def js_or_def js_def)

lemma decode_state_without_user:
  "decode_state (Some (js ''%7B%7D'')) = Inr (VStr (js ''unknown''))"
  "decode_state (Some (js ''true'')) = Inr (VStr (js ''unknown''))"
  by (simp_all add: js_def eval_defs parse_literal_def)

lemma decode_not_json: "decode_state (Some (js ''not json'')) = Inl SyntaxError"
  by (simp add: js_def eval_defs parse_literal_def)

lemma decode_percent_sign: "decode_state (Some (js ''%'')) = Inl URIError"
  by (simp add: js_def eval_defs)

text \<open>
  C3. A state that is not JSON makes every callback fail, whatever the provider answers
  and whatever the table holds: \<open>JSON.parse\<close> throws, nothing catches it on behalf of
  the fallback, and the exchange is never started. The Meta route, whose \<open>try\<close> block
  holds the decoding, answers 500; in the four other routes the decoding stands before
  the \<open>try\<close> block, the handler ends with the SyntaxError and sends no response. The table
  is left as it was.
\<close>

theorem undecodable_state_fails_callback:
  "callback PMeta w \<lparr>code = Some (js ''abc''), state = Some (js ''not json'')\<rparr> d
     = (Inr (Send 500 (js ''Error during Facebook OAuth'')), d)
   \<and> callback PYouTube w \<lparr>code = Some (js ''abc''), state = Some (js ''not json'')\<rparr> d
     = (Inl SyntaxError, d)
   \<and> callback PX w \<lparr>code = Some (js ''abc''), state = Some (js ''not json'')\<rparr> d
     = (Inl SyntaxError, d)
   \<and> callback PPinterest w \<lparr>code = Some (js ''abc''), state = Some (js ''not json'')\<rparr> d
     = (Inl SyntaxError, d)
   \<and> callback PLinkedIn w \<lparr>code = Some (js ''abc''), state = Some (js ''not json'')\<rparr> d
     = (Inl SyntaxError, d)"
proof -
  have "decode_state (state \<lparr>code = Some (js ''abc''), state = Some (js ''not json'')\<rparr>) = Inl SyntaxError"
    by (simp add: decode_not_json)
  then have c: "callback p w \<lparr>code = Some (js ''abc''), state = Some (js ''not json'')\<rparr> d
      = (if p = PMeta then Inr (Send 500 (failure_text p)) else Inl SyntaxError, d)" for p
    by (rule callback_undecodable) simp
  show ?thesis
    using c [of PMeta] c [of PYouTube] c [of PX] c [of PPinterest] c [of PLinkedIn]
    by (simp add: failure_text_def del: callback.simps)
qed

text \<open>
  C9. A request without a code whose state is not percent-encoded gets no benign answer:
  the decoding of the state comes before the test of the code and
  \<open>decodeURIComponent\<close> throws. The Meta route answers 500; the four other routes end
  with the URIError and send no response. The table is left as it was.
\<close>

theorem no_code_with_bad_state_is_an_error:
  "callback PMeta w \<lparr>code = None, state = Some (js ''%'')\<rparr> d
     = (Inr (Send 500 (js ''Error during Facebook OAuth'')), d)
   \<and> callback PYouTube w \<lparr>code = None, state = Some (js ''%'')\<rparr> d = (Inl URIError, d)
   \<and> callback PX w \<lparr>code = None, state = Some (js ''%'')\<rparr> d = (Inl URIError, d)
   \<and> callback PPinterest w \<lparr>code = None, state = Some (js ''%'')\<rparr> d = (Inl URIError, d)
   \<and> callback PLinkedIn w \<lparr>code = None, state = Some (js ''%'')\<rparr> d = (Inl URIError, d)"
proof -
  have "decode_state (state \<lparr>code = None, state = Some (js ''%'')\<rparr>) = Inl URIError"
    by (simp add: decode_percent_sign)
  then have c: "callback p w \<lparr>code = None, state = Some (js ''%'')\<rparr> d
      = (if p = PMeta then Inr (Send 500 (failure_text p)) else Inl URIError, d)" for p
    by (rule callback_undecodable) simp
  show ?thesis
    using c [of PMeta] c [of PYouTube] c [of PX] c [of PPinterest] c [of PLinkedIn]
    by (simp add: failure_text_def del: callback.simps)
qed

text \<open>With a state that decodes, or none, the request without a code is answered 200.\<close>

lemma callback_without_code_examples:
  "snd (callback PYouTube no_pages_world \<lparr>code = None, state = None\<rparr> example_db) = example_db
   \<and> fst (callback PYouTube no_pages_world \<lparr>code = None, state = None\<rparr> example_db)
       = Inr (Send 200 (js ''No code provided''))
   \<and> fst (callback PLinkedIn no_pages_world \<lparr>code = Some [], state = Some state_u1\<rparr> example_db)
       = Inr (Send 200 (js ''No code''))"
  using callback_without_code [of "\<lparr>code = None, state = None\<rparr>" PYouTube no_pages_world example_db]
    callback_without_code [of "\<lparr>code = Some [], state = Some state_u1\<rparr>" PLinkedIn no_pages_world example_db]
    decode_state_absent [of None] decode_u1
  by (simp add: no_code_text_def)

end
